theory Spec2Isabelle
  imports Complex_Main "HOL-Library.Word" "HOL-Library.List_Lexorder"
begin

section \<open>JavaScript strings\<close>

text \<open>
  A JavaScript string is a sequence of UTF-16 code units; \<open>length\<close>, \<open>substring\<close>,
  \<open>trim\<close> and a regular expression without the \<open>u\<close> flag all work on code units.
  A literal of the source is written \<open>js ''...''\<close>.
\<close>

type_synonym jschar = "16 word"
type_synonym jsstring = "jschar list"

definition js :: "string \<Rightarrow> jsstring" where
  "js s = map of_char s"

definition isLineTerminator :: "jschar \<Rightarrow> bool" where
  "isLineTerminator c \<longleftrightarrow> c = 0x0A \<or> c = 0x0D \<or> c = 0x2028 \<or> c = 0x2029"

text \<open>
  The code units that \<open>String.prototype.trim\<close> strips and that \<open>\s\<close> matches:
  ECMAScript WhiteSpace and LineTerminator.
\<close>

definition isWhiteSpace :: "jschar \<Rightarrow> bool" where
  "isWhiteSpace c \<longleftrightarrow>
     c = 0x09 \<or> c = 0x0B \<or> c = 0x0C \<or> c = 0x20 \<or> c = 0xA0 \<or> c = 0x1680 \<or>
     (0x2000 \<le> c \<and> c \<le> 0x200A) \<or> c = 0x202F \<or> c = 0x205F \<or> c = 0x3000 \<or>
     c = 0xFEFF \<or> isLineTerminator c"

definition trim :: "jsstring \<Rightarrow> jsstring" where
  "trim s = rev (dropWhile isWhiteSpace (rev (dropWhile isWhiteSpace s)))"

definition endsWith :: "jsstring \<Rightarrow> jsstring \<Rightarrow> bool" where
  "endsWith s t \<longleftrightarrow> length t \<le> length s \<and> drop (length s - length t) s = t"

text \<open>\<open>s.substring(0, n)\<close> for a constant \<open>n \<ge> 0\<close>.\<close>

definition substring0 :: "jsstring \<Rightarrow> nat \<Rightarrow> jsstring" where
  "substring0 s n = take n s"

text \<open>\<open>s.replace(/c/g, r)\<close> for a pattern that is one literal code unit.\<close>

definition replaceAll :: "jschar \<Rightarrow> jsstring \<Rightarrow> jsstring \<Rightarrow> jsstring" where
  "replaceAll c r s = concat (map (\<lambda>x. if x = c then r else [x]) s)"

text \<open>JavaScript truthiness of an optional string: \<open>undefined\<close>, \<open>null\<close> and \<open>''\<close> are falsy.\<close>

definition truthy :: "jsstring option \<Rightarrow> bool" where
  "truthy v \<longleftrightarrow> (case v of None \<Rightarrow> False | Some s \<Rightarrow> s \<noteq> [])"

section \<open>Data model\<close>

text \<open>
  A date-valued property of a parsed capture: the string the classifier wrote, or, once
  \<open>parseCapture\<close> has converted it, a \<open>Date\<close> object. A \<open>Date\<close> object holds a time value
  in milliseconds since the epoch, or is an Invalid Date (\<open>None\<close>).
\<close>

datatype DateField = DateString jsstring | DateObject "int option"

text \<open>
  The \<open>data\<close> object of a parsed capture. The interfaces \<open>ParsedTask\<close>, \<open>ParsedEvent\<close>,
  \<open>ParsedTransaction\<close> and \<open>ParsedNote\<close> each name some of these properties, and the
  casts of the source check nothing, so the object is one record of optional properties:
  each is a value of the type its interface declares or \<open>undefined\<close> (here \<open>None\<close>). An
  object spread with overrides is a record update.
\<close>

record ParsedData =
  title :: "jsstring option"
  description :: "jsstring option"
  dueDate :: "DateField option"
  priority :: "jsstring option"
  isRecurring :: "bool option"
  recurrenceRule :: "jsstring option"
  startTime :: "DateField option"
  endTime :: "DateField option"
  location :: "jsstring option"
  amount :: "rat option"
  type :: "jsstring option"
  category :: "jsstring option"
  date :: "DateField option"
  content :: "jsstring option"
  tags :: "jsstring list option"
  photoUrl :: "jsstring option"

text \<open>
  Rows of the four tables, with the columns the storage service writes and reads
  (\<open>None\<close> is SQL \<open>NULL\<close>). The \<open>map...FromDB\<close> functions of the source rename the columns
  to camel case and read the timestamps back as \<open>Date\<close> objects; the model keeps the row.
\<close>

record task_row =
  task_id :: jsstring
  task_user_id :: jsstring
  task_title :: "jsstring option"
  task_description :: "jsstring option"
  task_due_date :: "int option"
  task_priority :: jsstring
  task_is_completed :: bool
  task_is_recurring :: bool
  task_recurrence_rule :: "jsstring option"
  task_completed_at :: "int option"
  task_photo_url :: "jsstring option"
  task_created_at :: int
  task_updated_at :: int

record event_row =
  event_id :: jsstring
  event_user_id :: jsstring
  event_title :: "jsstring option"
  event_description :: "jsstring option"
  event_start_time :: int
  event_end_time :: int
  event_location :: "jsstring option"
  event_is_recurring :: bool
  event_recurrence_rule :: "jsstring option"
  event_google_event_id :: "jsstring option"
  event_color :: jsstring
  event_created_at :: int
  event_updated_at :: int

record note_row =
  note_id :: jsstring
  note_user_id :: jsstring
  note_title :: jsstring
  note_content :: "jsstring option"
  note_tags :: "jsstring list"
  note_is_pinned :: bool
  note_photo_url :: "jsstring option"
  note_created_at :: int
  note_updated_at :: int

record transaction_row =
  transaction_id :: jsstring
  transaction_user_id :: jsstring
  transaction_amount :: "rat option"
  transaction_type :: "jsstring option"
  transaction_category :: "jsstring option"
  transaction_description :: "jsstring option"
  transaction_date :: int
  transaction_notes :: "jsstring option"
  transaction_photo_url :: "jsstring option"
  transaction_created_at :: int
  transaction_updated_at :: int

text \<open>The record store, and the objects of the \<open>capture-media\<close> bucket by file name.\<close>

record store =
  db_tasks :: "task_row list"
  db_events :: "event_row list"
  db_notes :: "note_row list"
  db_transactions :: "transaction_row list"
  media :: "jsstring list"

text \<open>Everything the source throws: the value of a rejected promise.\<close>

datatype db_call =
  TasksInsert | EventsInsert | EventsUpdate | NotesSelect | NotesUpdate | NotesInsert
  | TransactionsInsert

datatype js_error =
    Error string
  | TypeError string
  | RangeError string
  | PostgrestError db_call
  | StorageError
  | FetchError

text \<open>The request \<open>pushToGoogleCalendar\<close> sends, and what \<open>fetch\<close> can answer.\<close>

record GoogleCalendarEvent =
  summary :: "jsstring option"
  gcal_description :: "jsstring option"
  start_dateTime :: int
  end_dateTime :: int
  timeZone :: jsstring
  gcal_location :: "jsstring option"
  recurrence :: "jsstring list option"

datatype http_method = GET | POST | PUT | DELETE

datatype fetch_result =
    NetworkFailure
  | NotOk string
  | Ok "jsstring option"

text \<open>
  A parsed capture: the \<open>type\<close> and \<open>data\<close> properties of the object the classifier
  answered. Nothing checks that they are present, so both are optional.
\<close>

record ParsedCapture =
  capture_type :: "jsstring option"
  capture_data :: "ParsedData option"

text \<open>
  What \<open>JSON.parse\<close> returns: \<open>null\<close>, or a value of which the source reads the
  properties \<open>type\<close> and \<open>data\<close> only. For a number, a string, a boolean or an array
  both are \<open>undefined\<close>; a \<open>data\<close> that is present is an object.
\<close>

datatype json_result = JsonNull | JsonObject ParsedCapture

text \<open>The photo the user selected (a \<open>File\<close>).\<close>

record File =
  file_name :: jsstring
  file_type :: jsstring
  file_size :: int

text \<open>
  What lies outside the source: the signed-in user, the outcome of each query, the
  identifiers \<open>crypto.randomUUID\<close> returns, the clocks, the time zone of the browser, the
  \<open>Date\<close> parser, the two case mappings, the storage bucket, the Google session and API,
  the classifier and \<open>JSON.parse\<close>.

  The time zone is given by its offset from UTC in milliseconds: \<open>tz_offset t\<close> at the
  instant \<open>t\<close>, so that the local time of \<open>t\<close> is \<open>t + tz_offset t\<close>, and \<open>tz_offset_local l\<close>
  for a local time \<open>l\<close>, so that the instant of \<open>l\<close> is \<open>l - tz_offset_local l\<close>. With daylight
  saving the offset changes from one instant to another.

  \<open>toLowerCase\<close> is \<open>String.prototype.toLowerCase\<close> and \<open>pg_lower\<close> the function \<open>lower\<close> of
  PostgreSQL; both follow Unicode tables and a locale that are not part of the source.
  \<open>JSON.parse\<close> returns \<open>None\<close> for a syntax error, \<open>JsonNull\<close> for \<open>null\<close> and otherwise
  a value seen through its \<open>type\<close> and \<open>data\<close> properties, read at the types the
  interfaces declare (properties of other types than declared are not represented).
  \<open>generateContent\<close> takes the input of
  the user (the prompt is built from it and the clock) and returns the text of the
  response, or \<open>None\<close> when the call fails.
\<close>

record env =
  auth_user :: "jsstring option"
  db_error :: "db_call \<Rightarrow> bool"
  record_uuid :: jsstring
  upload_uuid :: jsstring
  now :: int
  db_now :: int
  tz_offset :: "int \<Rightarrow> int"
  tz_offset_local :: "int \<Rightarrow> int"
  date_parse :: "jsstring \<Rightarrow> int option"
  toLowerCase :: "jsstring \<Rightarrow> jsstring"
  pg_lower :: "jsstring \<Rightarrow> jsstring"
  upload_error :: bool
  publicUrl :: "jsstring \<Rightarrow> jsstring option"
  provider_token :: "jsstring option"
  resolved_timeZone :: jsstring
  fetch :: "http_method \<Rightarrow> jsstring \<Rightarrow> GoogleCalendarEvent option \<Rightarrow> fetch_result"
  generateContent :: "jsstring \<Rightarrow> jsstring option"
  JSON_parse :: "jsstring \<Rightarrow> json_result option"

section \<open>The merge resolver: \<open>escapeHtml\<close> and \<open>extractMergeInfo\<close>\<close>

definition escapeHtml :: "jsstring \<Rightarrow> jsstring" where
  "escapeHtml text =
     replaceAll 0x3E (js ''&gt;'') (replaceAll 0x3C (js ''&lt;'') (replaceAll 0x26 (js ''&amp;'') text))"

text \<open>
  The regular expression \<open>/^(.+?)(?::|-)\s*(.+)$/\<close> (no flags), as a backtracking
  matcher written for this expression.

  \<open>match_entry\<close> is \<open>\s*(.+)$\<close> on what follows the separator. \<open>\s*\<close> is greedy: it
  first takes the next white space and goes on; when the rest fails, it gives the code
  unit back and \<open>(.+)$\<close> has to match from here: one or more code units that are not
  line terminators, up to the end of the input.
\<close>

definition dotPlusEnd :: "jsstring \<Rightarrow> jsstring option" where
  "dotPlusEnd s = (if s \<noteq> [] \<and> (\<forall>c \<in> set s. \<not> isLineTerminator c) then Some s else None)"

fun match_entry :: "jsstring \<Rightarrow> jsstring option" where
  "match_entry [] = None"
| "match_entry (c # cs) =
     (if isWhiteSpace c
      then (case match_entry cs of Some e \<Rightarrow> Some e | None \<Rightarrow> dotPlusEnd (c # cs))
      else dotPlusEnd (c # cs))"

text \<open>
  \<open>match_bucket pre s\<close> is \<open>(.+?)(?::|-)\<close> followed by the rest, with \<open>pre\<close> the code
  units group 1 has taken so far and \<open>s\<close> the input left. \<open>.+?\<close> is lazy: with at least
  one code unit taken, it first tries to stop here (the next code unit has to be a
  colon or a hyphen and the rest has to match); otherwise it takes one more code unit
  that is not a line terminator.
\<close>

definition isSeparator :: "jschar \<Rightarrow> bool" where
  "isSeparator c \<longleftrightarrow> c = 0x3A \<or> c = 0x2D"

fun match_bucket :: "jsstring \<Rightarrow> jsstring \<Rightarrow> (jsstring \<times> jsstring) option" where
  "match_bucket pre [] = None"
| "match_bucket pre (c # cs) =
     (case (if pre \<noteq> [] \<and> isSeparator c then match_entry cs else None) of
        Some e \<Rightarrow> Some (pre, e)
      | None \<Rightarrow> if isLineTerminator c then None else match_bucket (pre @ [c]) cs)"

text \<open>\<open>source.match(...)\<close>: the two groups of the match, or \<open>None\<close> for \<open>null\<close>.\<close>

definition regexMatch :: "jsstring \<Rightarrow> (jsstring \<times> jsstring) option" where
  "regexMatch source = match_bucket [] source"

text \<open>\<open>note.title || note.content || ''\<close>.\<close>

definition mergeSource :: "ParsedData \<Rightarrow> jsstring" where
  "mergeSource note =
     (if truthy (title note) then the (title note)
      else if truthy (content note) then the (content note)
      else [])"

definition extractMergeInfo :: "ParsedData \<Rightarrow> (jsstring \<times> jsstring) option" where
  "extractMergeInfo note =
     (let source = trim (mergeSource note) in
      case regexMatch source of
        None \<Rightarrow> None
      | Some (g1, g2) \<Rightarrow>
          (let bucketTitle = trim g1; entry = trim g2 in
           if bucketTitle = [] \<or> entry = [] then None else Some (bucketTitle, entry)))"

section \<open>The record store: \<open>SupabaseStorageService\<close>\<close>

definition getUserId :: "env \<Rightarrow> js_error + jsstring" where
  "getUserId e =
     (case auth_user e of None \<Rightarrow> Inl (Error ''User not authenticated'') | Some u \<Rightarrow> Inr u)"

text \<open>
  The filter \<open>.ilike('title', pattern)\<close>. PostgREST replaces every \<open>*\<close> of the pattern
  by \<open>%\<close>; PostgreSQL then evaluates \<open>title ILIKE pattern\<close>, which in a database encoded
  in UTF-8 is \<open>lower(title) LIKE lower(pattern)\<close>.

  \<open>MatchText t p\<close> is the matcher of PostgreSQL's \<open>LIKE\<close> for the text \<open>t\<close> and the pattern
  \<open>p\<close>: \<open>%\<close> matches any sequence of characters, \<open>_\<close> any one character, and a backslash
  takes the next character literally. A backslash that is the last character of the
  pattern is an error (\<open>LIKE pattern must not end with escape character\<close>), raised when
  the matcher comes to it. \<open>LIKE_ABORT\<close> is a failure that no later start of the text
  can repair; for the caller it is no match. After a \<open>%\<close>, \<open>skipWildcards\<close> passes the
  wild cards that follow it and \<open>scanText\<close> looks for a place of the text where the rest
  of the pattern matches, trying only the places that start with its first character.
  The matcher goes code unit by code unit, which is character by character for text of
  the Basic Multilingual Plane.
\<close>

datatype like_result = LIKE_TRUE | LIKE_FALSE | LIKE_ABORT | LIKE_ERROR

fun MatchText :: "jsstring \<Rightarrow> jsstring \<Rightarrow> like_result"
  and skipWildcards :: "jsstring \<Rightarrow> jsstring \<Rightarrow> like_result"
  and scanText :: "jschar \<Rightarrow> jsstring \<Rightarrow> jsstring \<Rightarrow> like_result" where
  "MatchText t [] = (if t = [] then LIKE_TRUE else LIKE_FALSE)"
| "MatchText [] (x # ps) =
     (if dropWhile (\<lambda>c. c = 0x25) (x # ps) = [] then LIKE_TRUE else LIKE_ABORT)"
| "MatchText (c # cs) (x # ps) =
     (if x = 0x5C then
        (case ps of
           [] \<Rightarrow> LIKE_ERROR
         | q # qs \<Rightarrow> if q \<noteq> c then LIKE_FALSE else MatchText cs qs)
      else if x = 0x25 then skipWildcards (c # cs) ps
      else if x = 0x5F then MatchText cs ps
      else if x \<noteq> c then LIKE_FALSE
      else MatchText cs ps)"
| "skipWildcards t [] = LIKE_TRUE"
| "skipWildcards t (x # ps) =
     (if x = 0x25 then skipWildcards t ps
      else if x = 0x5F then (case t of [] \<Rightarrow> LIKE_ABORT | c # cs \<Rightarrow> skipWildcards cs ps)
      else if x = 0x5C \<and> ps = [] then LIKE_ERROR
      else scanText (if x = 0x5C then hd ps else x) t (x # ps))"
| "scanText firstpat [] p = LIKE_ABORT"
| "scanText firstpat (c # cs) p =
     (if c = firstpat
      then (case MatchText (c # cs) p of
              LIKE_FALSE \<Rightarrow> scanText firstpat cs p
            | matched \<Rightarrow> matched)
      else scanText firstpat cs p)"

definition postgrestPattern :: "jsstring \<Rightarrow> jsstring" where
  "postgrestPattern pattern = map (\<lambda>c. if c = 0x2A then 0x25 else c) pattern"

definition ilike :: "env \<Rightarrow> jsstring \<Rightarrow> jsstring \<Rightarrow> like_result" where
  "ilike e column pattern = MatchText (pg_lower e column) (pg_lower e (postgrestPattern pattern))"

text \<open>
  The query of \<open>notes.create\<close> for the merge target: the notes of the user whose title
  matches, \<open>limit(1)\<close>. The rows of \<open>db_notes\<close> are in the order in which PostgreSQL reads
  the table; it stops at the first row that matches. The result is \<open>None\<close> when the
  query ends in an error (\<open>existingError\<close>), and otherwise the rows of \<open>existingNotes\<close>.
\<close>

fun existingNotes :: "env \<Rightarrow> jsstring \<Rightarrow> jsstring \<Rightarrow> note_row list \<Rightarrow> note_row list option" where
  "existingNotes e userId bucketTitle [] = Some []"
| "existingNotes e userId bucketTitle (n # rows) =
     (if note_user_id n = userId
      then (case ilike e (note_title n) bucketTitle of
              LIKE_TRUE \<Rightarrow> Some [n]
            | LIKE_ERROR \<Rightarrow> None
            | LIKE_FALSE \<Rightarrow> existingNotes e userId bucketTitle rows
            | LIKE_ABORT \<Rightarrow> existingNotes e userId bucketTitle rows)
      else existingNotes e userId bucketTitle rows)"

text \<open>
  The list-item fragment; the three code units before the space are those of the source
  file.
\<close>

definition entryMarkup :: "jsstring \<Rightarrow> jsstring" where
  "entryMarkup escapedEntry = js ''<div>'' @ [0xE2, 0x20AC, 0xA2, 0x20] @ escapedEntry @ js ''</div>''"

text \<open>
  \<open>baseContent\<close>: the content when it is a string, and \<open>JSON.stringify\<close> of it otherwise;
  in a text column the only other value is \<open>NULL\<close>.
\<close>

definition baseContent :: "jsstring option \<Rightarrow> jsstring" where
  "baseContent c = (case c of Some s \<Rightarrow> s | None \<Rightarrow> js ''null'')"

definition newContent :: "jsstring \<Rightarrow> jsstring \<Rightarrow> jsstring" where
  "newContent base markup =
     (if trim base \<noteq> []
      then base @ (if endsWith (trim base) (js ''<br />'') then [] else js ''<br />'') @ markup
      else markup)"

text \<open>
  Modelled from the spec: the defaults and triggers of the tables, whose schema is not in
  the source. The creation timestamp is set once, at the insert, and the update
  timestamp is refreshed on every mutation; both from the clock of the database. Every
  insert and update of this service sets the two columns so.
\<close>

definition notes_update_content :: "env \<Rightarrow> jsstring \<Rightarrow> jsstring \<Rightarrow> note_row list \<Rightarrow> note_row list" where
  "notes_update_content e i c rows =
     map (\<lambda>n. if note_id n = i then n\<lparr>note_content := Some c, note_updated_at := db_now e\<rparr> else n) rows"

text \<open>
  The end of \<open>notes.create\<close>: the insert of a new note. \<open>.single()\<close> of an insert returns
  the row inserted.
\<close>

definition notes_insert :: "env \<Rightarrow> jsstring \<Rightarrow> ParsedData \<Rightarrow> store \<Rightarrow> js_error + (note_row \<times> store)" where
  "notes_insert e userId noteData st =
     (if \<not> truthy (title noteData) \<and> content noteData = None
      then Inl (TypeError ''Cannot read properties of undefined (reading substring)'')
      else
        let note = \<lparr>
              note_id = record_uuid e,
              note_user_id = userId,
              note_title = (if truthy (title noteData) then the (title noteData)
                            else substring0 (the (content noteData)) 50),
              note_content = content noteData,
              note_tags = (case tags noteData of Some ts \<Rightarrow> ts | None \<Rightarrow> []),
              note_is_pinned = False,
              note_photo_url = (if truthy (photoUrl noteData) then photoUrl noteData else None),
              note_created_at = db_now e,
              note_updated_at = db_now e\<rparr>
        in if db_error e NotesInsert then Inl (PostgrestError NotesInsert)
           else Inr (note, st\<lparr>db_notes := db_notes st @ [note]\<rparr>))"

text \<open>
  \<open>notes.create\<close>. The update ends in \<open>.single()\<close>, which is an error unless exactly one
  row has the identifier.
\<close>

definition notes_create :: "env \<Rightarrow> ParsedData \<Rightarrow> store \<Rightarrow> js_error + (note_row \<times> store)" where
  "notes_create e noteData st =
     (case getUserId e of
        Inl err \<Rightarrow> Inl err
      | Inr userId \<Rightarrow>
         (case extractMergeInfo noteData of
            Some (bucketTitle, entry) \<Rightarrow>
              if db_error e NotesSelect then Inl (PostgrestError NotesSelect)
              else
                let markup = entryMarkup (escapeHtml entry) in
                (case existingNotes e userId bucketTitle (db_notes st) of
                   None \<Rightarrow> Inl (PostgrestError NotesSelect)
                 | Some (existingNote # _) \<Rightarrow>
                     let rows = notes_update_content e (note_id existingNote)
                                  (newContent (baseContent (note_content existingNote)) markup)
                                  (db_notes st)
                     in (case filter (\<lambda>n. note_id n = note_id existingNote) rows of
                           [updated] \<Rightarrow>
                             if db_error e NotesUpdate then Inl (PostgrestError NotesUpdate)
                             else Inr (updated, st\<lparr>db_notes := rows\<rparr>)
                         | _ \<Rightarrow> Inl (PostgrestError NotesUpdate))
                 | Some [] \<Rightarrow>
                     notes_insert e userId
                       (noteData\<lparr>title := Some bucketTitle, content := Some markup\<rparr>) st)
          | None \<Rightarrow> notes_insert e userId noteData st))"

section \<open>The record store: \<open>LocalStorageService\<close>\<close>

text \<open>
  The IndexedDB implementation of \<open>notes.create\<close>; its table is \<open>db_notes\<close> of the same
  store. The order of that list is the order in which PostgreSQL scans the table; it
  means nothing to IndexedDB, which reads a table in the order of its keys.
\<close>

definition defaultUserId :: jsstring where
  "defaultUserId = js ''local-user''"

text \<open>
  \<open>db.notes.toArray()\<close> returns the notes in the order of their primary key, the
  identifier; IndexedDB orders strings by their code units.
\<close>

definition toArray :: "note_row list \<Rightarrow> note_row list" where
  "toArray rows = sort_key note_id rows"

definition local_existing :: "env \<Rightarrow> jsstring \<Rightarrow> note_row list \<Rightarrow> note_row option" where
  "local_existing e bucketTitle rows =
     find (\<lambda>n. toLowerCase e (trim (note_title n)) = toLowerCase e bucketTitle) (toArray rows)"

text \<open>
  In IndexedDB a note without content has the content \<open>undefined\<close> (here \<open>None\<close>), which
  \<open>JSON.stringify\<close> leaves \<open>undefined\<close>: the new content is then the list item alone.
\<close>

definition local_newContent :: "jsstring option \<Rightarrow> jsstring \<Rightarrow> jsstring" where
  "local_newContent c markup = (case c of None \<Rightarrow> markup | Some base \<Rightarrow> newContent base markup)"

definition local_notes_insert :: "env \<Rightarrow> ParsedData \<Rightarrow> store \<Rightarrow> js_error + (note_row \<times> store)" where
  "local_notes_insert e data st =
     (if \<not> truthy (title data) \<and> content data = None
      then Inl (TypeError ''Cannot read properties of undefined (reading substring)'')
      else
        let note = \<lparr>
              note_id = record_uuid e,
              note_user_id = defaultUserId,
              note_title = (if truthy (title data) then the (title data)
                            else substring0 (the (content data)) 50),
              note_content = content data,
              note_tags = (case tags data of Some ts \<Rightarrow> ts | None \<Rightarrow> []),
              note_is_pinned = False,
              note_photo_url = (if truthy (photoUrl data) then photoUrl data else None),
              note_created_at = now e,
              note_updated_at = now e\<rparr>
        in Inr (note, st\<lparr>db_notes := db_notes st @ [note]\<rparr>))"

definition local_notes_create :: "env \<Rightarrow> ParsedData \<Rightarrow> store \<Rightarrow> js_error + (note_row \<times> store)" where
  "local_notes_create e data st =
     (case extractMergeInfo data of
        Some (bucketTitle, entry) \<Rightarrow>
          let markup = entryMarkup (escapeHtml entry) in
          (case local_existing e bucketTitle (db_notes st) of
             Some existing \<Rightarrow>
               let rows = map (\<lambda>n. if note_id n = note_id existing
                                    then n\<lparr>note_content :=
                                             Some (local_newContent (note_content existing) markup),
                                           note_updated_at := now e\<rparr>
                                    else n) (db_notes st)
               in (case find (\<lambda>n. note_id n = note_id existing) rows of
                     None \<Rightarrow> Inl (Error ''Note not found after merge'')
                   | Some updated \<Rightarrow> Inr (updated, st\<lparr>db_notes := rows\<rparr>))
           | None \<Rightarrow>
               local_notes_insert e (data\<lparr>title := Some bucketTitle, content := Some markup\<rparr>) st)
      | None \<Rightarrow> local_notes_insert e data st)"

section \<open>Dates\<close>

text \<open>
  The \<open>Date\<close> methods the source uses, on time values (ECMAScript, section Date
  objects). The local time of a time value \<open>t\<close> is \<open>t + tz_offset t\<close>. Days are counted
  from 1 January 1970; \<open>civil_from_days\<close> and \<open>days_from_civil\<close>
  convert between a day number and the year, the month (1 to 12) and the day of the
  month of the proleptic Gregorian calendar.
\<close>

definition msPerDay :: int where
  "msPerDay = 86400000"

definition HourFromTime :: "int \<Rightarrow> int" where
  "HourFromTime t = (t div 3600000) mod 24"

definition MinFromTime :: "int \<Rightarrow> int" where
  "MinFromTime t = (t div 60000) mod 60"

definition SecFromTime :: "int \<Rightarrow> int" where
  "SecFromTime t = (t div 1000) mod 60"

definition Day :: "int \<Rightarrow> int" where
  "Day t = t div msPerDay"

definition civil_from_days :: "int \<Rightarrow> int \<times> int \<times> int" where
  "civil_from_days z =
     (let z' = z + 719468;
          era = z' div 146097;
          doe = z' mod 146097;
          yoe = (doe - doe div 1460 + doe div 36524 - doe div 146096) div 365;
          doy = doe - (365 * yoe + yoe div 4 - yoe div 100);
          mp = (5 * doy + 2) div 153;
          d = doy - (153 * mp + 2) div 5 + 1;
          m = (if mp < 10 then mp + 3 else mp - 9);
          y = yoe + era * 400
      in (if m \<le> 2 then y + 1 else y, m, d))"

definition days_from_civil :: "int \<Rightarrow> int \<Rightarrow> int \<Rightarrow> int" where
  "days_from_civil y m d =
     (let y' = (if m \<le> 2 then y - 1 else y);
          era = y' div 400;
          yoe = y' mod 400;
          doy = (153 * (if m > 2 then m - 3 else m + 9) + 2) div 5 + d - 1;
          doe = yoe * 365 + yoe div 4 - yoe div 100 + doy
      in era * 146097 + doe - 719468)"

definition getUTCHours :: "int \<Rightarrow> int" where
  "getUTCHours t = HourFromTime t"

definition getUTCMinutes :: "int \<Rightarrow> int" where
  "getUTCMinutes t = MinFromTime t"

definition getUTCSeconds :: "int \<Rightarrow> int" where
  "getUTCSeconds t = SecFromTime t"

definition getHours :: "env \<Rightarrow> int \<Rightarrow> int" where
  "getHours e t = HourFromTime (t + tz_offset e t)"

definition getMinutes :: "env \<Rightarrow> int \<Rightarrow> int" where
  "getMinutes e t = MinFromTime (t + tz_offset e t)"

definition getSeconds :: "env \<Rightarrow> int \<Rightarrow> int" where
  "getSeconds e t = SecFromTime (t + tz_offset e t)"

definition getFullYear :: "env \<Rightarrow> int \<Rightarrow> int" where
  "getFullYear e t = fst (civil_from_days (Day (t + tz_offset e t)))"

text \<open>\<open>getMonth\<close> counts the months from 0.\<close>

definition getMonth :: "env \<Rightarrow> int \<Rightarrow> int" where
  "getMonth e t = fst (snd (civil_from_days (Day (t + tz_offset e t)))) - 1"

definition getDate :: "env \<Rightarrow> int \<Rightarrow> int" where
  "getDate e t = snd (snd (civil_from_days (Day (t + tz_offset e t))))"

text \<open>
  \<open>new Date(year, month, date, hours, minutes, seconds)\<close>, for a month from 0 to 11:
  the fields are read in local time, a year from 0 to 99 is read as 1900 plus the year,
  and a time value beyond 8.64e15 milliseconds gives an Invalid Date.
\<close>

definition newDateFields :: "env \<Rightarrow> int \<Rightarrow> int \<Rightarrow> int \<Rightarrow> int \<Rightarrow> int \<Rightarrow> int \<Rightarrow> int option" where
  "newDateFields e y m d h mi s =
     (let yr = (if 0 \<le> y \<and> y \<le> 99 then 1900 + y else y);
          tv = days_from_civil yr (m + 1) d * msPerDay + h * 3600000 + mi * 60000 + s * 1000;
          u = tv - tz_offset_local e tv
      in if \<bar>u\<bar> \<le> 8640000000000000 then Some u else None)"

text \<open>\<open>new Date(v)\<close> for a date-valued property: a string is parsed, a \<open>Date\<close> is copied.\<close>

definition newDate :: "env \<Rightarrow> DateField \<Rightarrow> int option" where
  "newDate e v = (case v of DateString s \<Rightarrow> date_parse e s | DateObject d \<Rightarrow> d)"

text \<open>Truthiness of a date-valued property: a \<open>Date\<close> object is truthy, also when invalid.\<close>

definition truthyDate :: "DateField option \<Rightarrow> bool" where
  "truthyDate v \<longleftrightarrow> (case v of None \<Rightarrow> False | Some (DateString s) \<Rightarrow> s \<noteq> [] | Some (DateObject d) \<Rightarrow> True)"

text \<open>
  \<open>v.toISOString()\<close> on a property that is present: only a valid \<open>Date\<close> has a result (the
  instant, here its time value); a string has no such method.
\<close>

definition toISOString :: "DateField \<Rightarrow> js_error + int" where
  "toISOString v =
     (case v of
        DateString s \<Rightarrow> Inl (TypeError ''toISOString is not a function'')
      | DateObject None \<Rightarrow> Inl (RangeError ''Invalid time value'')
      | DateObject (Some t) \<Rightarrow> Inr t)"

text \<open>\<open>v || null\<close> for an optional string.\<close>

definition orNull :: "jsstring option \<Rightarrow> jsstring option" where
  "orNull v = (if truthy v then v else None)"

section \<open>\<open>SupabaseStorageService\<close>: tasks, events and transactions\<close>

definition tasks_create :: "env \<Rightarrow> ParsedData \<Rightarrow> store \<Rightarrow> js_error + (task_row \<times> store)" where
  "tasks_create e taskData st =
     (case getUserId e of
        Inl err \<Rightarrow> Inl err
      | Inr userId \<Rightarrow>
         (case (case dueDate taskData of
                  None \<Rightarrow> Inr None
                | Some v \<Rightarrow> (case toISOString v of Inl err \<Rightarrow> Inl err | Inr t \<Rightarrow> Inr (Some t))) of
            Inl err \<Rightarrow> Inl err
          | Inr due \<Rightarrow>
              let task = \<lparr>
                    task_id = record_uuid e,
                    task_user_id = userId,
                    task_title = title taskData,
                    task_description = orNull (description taskData),
                    task_due_date = due,
                    task_priority = (if truthy (priority taskData) then the (priority taskData)
                                     else js ''medium''),
                    task_is_completed = False,
                    task_is_recurring = (case isRecurring taskData of Some b \<Rightarrow> b | None \<Rightarrow> False),
                    task_recurrence_rule = orNull (recurrenceRule taskData),
                    task_completed_at = None,
                    task_photo_url = orNull (photoUrl taskData),
                    task_created_at = db_now e,
                    task_updated_at = db_now e\<rparr>
              in if db_error e TasksInsert then Inl (PostgrestError TasksInsert)
                 else Inr (task, st\<lparr>db_tasks := db_tasks st @ [task]\<rparr>)))"

text \<open>
  \<open>events.create\<close>. \<open>eventData.startTime.toISOString()\<close> throws a \<open>TypeError\<close> when the
  property is missing; the start is evaluated before the end.
\<close>

definition requiredISOString :: "DateField option \<Rightarrow> js_error + int" where
  "requiredISOString v =
     (case v of
        None \<Rightarrow> Inl (TypeError ''Cannot read properties of undefined (reading toISOString)'')
      | Some d \<Rightarrow> toISOString d)"

definition events_create :: "env \<Rightarrow> ParsedData \<Rightarrow> store \<Rightarrow> js_error + (event_row \<times> store)" where
  "events_create e eventData st =
     (case getUserId e of
        Inl err \<Rightarrow> Inl err
      | Inr userId \<Rightarrow>
         (case requiredISOString (startTime eventData) of
            Inl err \<Rightarrow> Inl err
          | Inr startIso \<Rightarrow>
             (case requiredISOString (endTime eventData) of
                Inl err \<Rightarrow> Inl err
              | Inr endIso \<Rightarrow>
                  let event = \<lparr>
                        event_id = record_uuid e,
                        event_user_id = userId,
                        event_title = title eventData,
                        event_description = orNull (description eventData),
                        event_start_time = startIso,
                        event_end_time = endIso,
                        event_location = orNull (location eventData),
                        event_is_recurring = (case isRecurring eventData of Some b \<Rightarrow> b | None \<Rightarrow> False),
                        event_recurrence_rule = orNull (recurrenceRule eventData),
                        event_google_event_id = None,
                        event_color = js ''#cba6f7'',
                        event_created_at = db_now e,
                        event_updated_at = db_now e\<rparr>
                  in if db_error e EventsInsert then Inl (PostgrestError EventsInsert)
                     else Inr (event, st\<lparr>db_events := db_events st @ [event]\<rparr>))))"

text \<open>
  \<open>events.update(id, { googleEventId })\<close>, the one update the capture makes. As in
  \<open>notes.create\<close>, \<open>.single()\<close> is an error unless exactly one row has the identifier.
\<close>

definition events_update :: "env \<Rightarrow> jsstring \<Rightarrow> jsstring \<Rightarrow> store \<Rightarrow> js_error + (event_row \<times> store)" where
  "events_update e i googleEventId st =
     (let rows = map (\<lambda>r. if event_id r = i
                           then r\<lparr>event_google_event_id := Some googleEventId,
                                  event_updated_at := db_now e\<rparr>
                           else r) (db_events st)
      in case filter (\<lambda>r. event_id r = i) rows of
           [updated] \<Rightarrow>
             if db_error e EventsUpdate then Inl (PostgrestError EventsUpdate)
             else Inr (updated, st\<lparr>db_events := rows\<rparr>)
         | _ \<Rightarrow> Inl (PostgrestError EventsUpdate))"

text \<open>
  The date \<open>transactions.create\<close> stores. \<open>NaN !== 0\<close> holds, so an Invalid Date counts as
  having a time and is kept, and \<open>toISOString\<close> then throws.
\<close>

definition hasTime :: "int option \<Rightarrow> bool" where
  "hasTime parsedDate \<longleftrightarrow>
     (case parsedDate of
        None \<Rightarrow> True
      | Some t \<Rightarrow> getUTCHours t \<noteq> 0 \<or> getUTCMinutes t \<noteq> 0 \<or> getUTCSeconds t \<noteq> 0)"

definition transactionDate :: "env \<Rightarrow> DateField option \<Rightarrow> int option" where
  "transactionDate e d =
     (if truthyDate d
      then (let parsedDate = newDate e (the d) in
            if hasTime parsedDate then parsedDate
            else newDateFields e
                   (getFullYear e (the parsedDate)) (getMonth e (the parsedDate))
                   (getDate e (the parsedDate))
                   (getHours e (now e)) (getMinutes e (now e)) (getSeconds e (now e)))
      else Some (now e))"

definition transactions_create :: "env \<Rightarrow> ParsedData \<Rightarrow> store \<Rightarrow> js_error + (transaction_row \<times> store)" where
  "transactions_create e transactionData st =
     (case getUserId e of
        Inl err \<Rightarrow> Inl err
      | Inr userId \<Rightarrow>
         (case toISOString (DateObject (transactionDate e (date transactionData))) of
            Inl err \<Rightarrow> Inl err
          | Inr isoDate \<Rightarrow>
              let transaction = \<lparr>
                    transaction_id = record_uuid e,
                    transaction_user_id = userId,
                    transaction_amount = amount transactionData,
                    transaction_type = type transactionData,
                    transaction_category = category transactionData,
                    transaction_description = orNull (description transactionData),
                    transaction_date = isoDate,
                    transaction_notes = None,
                    transaction_photo_url = orNull (photoUrl transactionData),
                    transaction_created_at = db_now e,
                    transaction_updated_at = db_now e\<rparr>
              in if db_error e TransactionsInsert then Inl (PostgrestError TransactionsInsert)
                 else Inr (transaction, st\<lparr>db_transactions := db_transactions st @ [transaction]\<rparr>)))"

section \<open>The attachment pipeline: \<open>uploadCapturePhoto\<close>\<close>

text \<open>
  \<open>file.name.split('.').pop()?.toLowerCase().replace(/[^a-z0-9]/g, '') || 'jpg'\<close>: the
  part of the name after its last dot (the whole name when it has none).
\<close>

definition extension :: "env \<Rightarrow> jsstring \<Rightarrow> jsstring" where
  "extension e name =
     (let seg = rev (takeWhile (\<lambda>c. c \<noteq> 0x2E) (rev name));
          clean = filter (\<lambda>c. (0x61 \<le> c \<and> c \<le> 0x7A) \<or> (0x30 \<le> c \<and> c \<le> 0x39)) (toLowerCase e seg)
      in if clean = [] then js ''jpg'' else clean)"

text \<open>
  The upload writes the object (\<open>upsert: true\<close>) unless the storage service answers
  with an error; the public URL is asked for afterwards.
\<close>

definition uploadCapturePhoto :: "env \<Rightarrow> File \<Rightarrow> jsstring \<Rightarrow> store \<Rightarrow> (js_error + jsstring) \<times> store" where
  "uploadCapturePhoto e file captureCategory st =
     (let fileName = captureCategory @ js ''/'' @ upload_uuid e @ js ''.'' @ extension e (file_name file) in
      if upload_error e then (Inl StorageError, st)
      else
        let st' = st\<lparr>media := (if fileName \<in> set (media st) then media st else media st @ [fileName])\<rparr>
        in if truthy (publicUrl e fileName) then (Inr (the (publicUrl e fileName)), st')
           else (Inl (Error ''Failed to get public URL for uploaded photo''), st'))"

section \<open>The external calendar bridge\<close>

definition getGoogleAccessToken :: "env \<Rightarrow> jsstring option" where
  "getGoogleAccessToken e = (if truthy (provider_token e) then provider_token e else None)"

definition googleCalendarRequest ::
  "env \<Rightarrow> http_method \<Rightarrow> jsstring \<Rightarrow> GoogleCalendarEvent option \<Rightarrow> js_error + jsstring option" where
  "googleCalendarRequest e method endpoint body =
     (case getGoogleAccessToken e of
        None \<Rightarrow> Inl (Error ''Not authenticated with Google'')
      | Some accessToken \<Rightarrow>
         (case fetch e method endpoint body of
            NetworkFailure \<Rightarrow> Inl FetchError
          | NotOk message \<Rightarrow> Inl (Error (''Google Calendar API error: '' @ message))
          | Ok i \<Rightarrow> Inr i))"

text \<open>
  \<open>pushToGoogleCalendar\<close> returns \<open>response.id\<close>; its \<open>catch\<close> logs the error and throws
  it again.
\<close>

definition pushToGoogleCalendar :: "env \<Rightarrow> event_row \<Rightarrow> js_error + jsstring option" where
  "pushToGoogleCalendar e event =
     (let gcalEvent = \<lparr>
            summary = event_title event,
            gcal_description = orNull (event_description event),
            start_dateTime = event_start_time event,
            end_dateTime = event_end_time event,
            timeZone = resolved_timeZone e,
            gcal_location = orNull (event_location event),
            recurrence = (if event_is_recurring event \<and> truthy (event_recurrence_rule event)
                          then Some [the (event_recurrence_rule event)] else None)\<rparr>
      in if truthy (event_google_event_id event)
         then googleCalendarRequest e PUT
                (js ''/calendars/primary/events/'' @ the (event_google_event_id event)) (Some gcalEvent)
         else googleCalendarRequest e POST (js ''/calendars/primary/events'') (Some gcalEvent))"

definition deleteFromGoogleCalendar :: "env \<Rightarrow> jsstring \<Rightarrow> js_error + unit" where
  "deleteFromGoogleCalendar e googleEventId =
     (case googleCalendarRequest e DELETE (js ''/calendars/primary/events/'' @ googleEventId) None of
        Inl err \<Rightarrow> Inl err
      | Inr r \<Rightarrow> Inr ())"

section \<open>The classifier gateway: \<open>parseCapture\<close>\<close>

text \<open>
  \<open>text.replace(/pat\n?/g, '')\<close> for a literal \<open>pat\<close>: every occurrence of \<open>pat\<close>, with the
  line feed after it if there is one, is removed, left to right. The counter is the
  number of code units of the current occurrence still to drop.
\<close>

definition startsWith :: "jsstring \<Rightarrow> jsstring \<Rightarrow> bool" where
  "startsWith s t \<longleftrightarrow> take (length t) s = t"

fun removeFence :: "jsstring \<Rightarrow> nat \<Rightarrow> jsstring \<Rightarrow> jsstring" where
  "removeFence pat k [] = []"
| "removeFence pat (Suc k) (c # cs) = removeFence pat k cs"
| "removeFence pat 0 (c # cs) =
     (if pat \<noteq> [] \<and> startsWith (c # cs) pat
      then removeFence pat
             (length pat - 1 + (if startsWith (drop (length pat) (c # cs)) [0x0A] then 1 else 0)) cs
      else c # removeFence pat 0 cs)"

definition cleanText :: "jsstring \<Rightarrow> jsstring" where
  "cleanText text =
     trim (removeFence (js ''```'') 0 (removeFence (js ''```json'') 0 text))"

text \<open>
  The conversion of the date strings. Reading a property of \<open>null\<close> or of \<open>undefined\<close>
  throws a \<open>TypeError\<close>; \<open>new Date(undefined)\<close> is an Invalid Date.
\<close>

definition convertDates :: "env \<Rightarrow> json_result \<Rightarrow> js_error + ParsedCapture" where
  "convertDates e parsed =
     (case parsed of
        JsonNull \<Rightarrow> Inl (TypeError ''Cannot read properties of null (reading type)'')
      | JsonObject c \<Rightarrow>
          if capture_type c = Some (js ''task'') then
            (case capture_data c of
               None \<Rightarrow> Inl (TypeError ''Cannot read properties of undefined (reading dueDate)'')
             | Some taskData \<Rightarrow>
                 if truthyDate (dueDate taskData)
                 then Inr (c\<lparr>capture_data :=
                        Some (taskData\<lparr>dueDate := Some (DateObject (newDate e (the (dueDate taskData))))\<rparr>)\<rparr>)
                 else Inr c)
          else if capture_type c = Some (js ''event'') then
            (case capture_data c of
               None \<Rightarrow> Inl (TypeError ''Cannot read properties of undefined (reading startTime)'')
             | Some eventData \<Rightarrow>
                 Inr (c\<lparr>capture_data :=
                   Some (eventData\<lparr>
                     startTime := Some (DateObject (case startTime eventData of
                                                      None \<Rightarrow> None | Some v \<Rightarrow> newDate e v)),
                     endTime := Some (DateObject (case endTime eventData of
                                                    None \<Rightarrow> None | Some v \<Rightarrow> newDate e v))\<rparr>)\<rparr>))
          else if capture_type c = Some (js ''expense'') \<or> capture_type c = Some (js ''income'') then
            (case capture_data c of
               None \<Rightarrow> Inl (TypeError ''Cannot read properties of undefined (reading date)'')
             | Some transactionData \<Rightarrow>
                 if truthyDate (date transactionData)
                 then Inr (c\<lparr>capture_data :=
                        Some (transactionData\<lparr>date := Some (DateObject (newDate e (the (date transactionData))))\<rparr>)\<rparr>)
                 else Inr c)
          else Inr c)"

text \<open>
  \<open>parseCapture\<close>: whatever is thrown inside the \<open>try\<close> is replaced by one \<open>Error\<close>.
\<close>

definition parseCapture :: "env \<Rightarrow> jsstring \<Rightarrow> js_error + ParsedCapture" where
  "parseCapture e input =
     (case generateContent e input of
        None \<Rightarrow> Inl (Error ''Failed to parse input. Please try rephrasing.'')
      | Some response \<Rightarrow>
         (case JSON_parse e (cleanText (trim response)) of
            None \<Rightarrow> Inl (Error ''Failed to parse input. Please try rephrasing.'')
          | Some parsed \<Rightarrow>
             (case convertDates e parsed of
                Inl err \<Rightarrow> Inl (Error ''Failed to parse input. Please try rephrasing.'')
              | Inr c \<Rightarrow> Inr c)))"

section \<open>The capture orchestrator: \<open>handleConfirm\<close> and \<open>handleSubmit\<close>\<close>

datatype notice_type = NoticeError | NoticeInfo

text \<open>
  The state a capture works on: the record store and the state of the component. What
  is written to the console is not part of it, nor are the timers that clear the notice
  and the success mark some seconds later.
\<close>

record app =
  db :: store
  input :: jsstring
  loading :: bool
  success :: bool
  parsed :: "ParsedCapture option"
  photoFile :: "File option"
  photoUploading :: bool
  notice :: "(notice_type \<times> string) option"
  onSuccess_calls :: nat

definition supportsPhoto :: "jsstring option \<Rightarrow> bool" where
  "supportsPhoto t \<longleftrightarrow>
     t = Some (js ''task'') \<or> t = Some (js ''note'') \<or> t = Some (js ''expense'') \<or> t = Some (js ''income'')"

text \<open>The first part of \<open>handleConfirm\<close>: the upload of the photo, with its own \<open>try\<close>.\<close>

definition uploadStep :: "env \<Rightarrow> ParsedCapture \<Rightarrow> app \<Rightarrow> jsstring option \<times> app" where
  "uploadStep e captureData a =
     (case photoFile a of
        None \<Rightarrow> (None, a)
      | Some file \<Rightarrow>
          if supportsPhoto (capture_type captureData) then
            (case uploadCapturePhoto e file (the (capture_type captureData)) (db a) of
               (Inr url, st) \<Rightarrow> (Some url, a\<lparr>db := st, photoUploading := False\<rparr>)
             | (Inl err, st) \<Rightarrow>
                 (None, a\<lparr>db := st, photoUploading := False,
                          notice := Some (NoticeError,
                            ''Failed to upload photo. The entry was saved without the image.'')\<rparr>))
          else
            (None, a\<lparr>notice := Some (NoticeInfo,
               ''Photos are currently only supported for tasks, notes, and finance entries.'')\<rparr>))"

text \<open>\<open>{ ...captureData.data }\<close>: the spread of \<open>undefined\<close> has no property.\<close>

definition noData :: ParsedData where
  "noData = \<lparr>title = None, description = None, dueDate = None, priority = None,
     isRecurring = None, recurrenceRule = None, startTime = None, endTime = None,
     location = None, amount = None, type = None, category = None, date = None,
     content = None, tags = None, photoUrl = None\<rparr>"

definition spread :: "ParsedData option \<Rightarrow> ParsedData" where
  "spread d = (case d of None \<Rightarrow> noData | Some x \<Rightarrow> x)"

text \<open>
  The event branch. The push to the calendar and the update that follows it are inside
  a \<open>try\<close> whose \<open>catch\<close> only logs.
\<close>

definition captureEvent :: "env \<Rightarrow> ParsedData option \<Rightarrow> store \<Rightarrow> js_error + store" where
  "captureEvent e d st =
     (case (case d of
              None \<Rightarrow> (case getUserId e of
                          Inl err \<Rightarrow> Inl err
                        | Inr u \<Rightarrow> Inl (TypeError ''Cannot read properties of undefined (reading title)''))
            | Some eventData \<Rightarrow> events_create e eventData st) of
        Inl err \<Rightarrow> Inl err
      | Inr (createdEvent, st1) \<Rightarrow>
         (case pushToGoogleCalendar e createdEvent of
            Inl err \<Rightarrow> Inr st1
          | Inr googleEventId \<Rightarrow>
              if truthy googleEventId then
                (case events_update e (event_id createdEvent) (the googleEventId) st1 of
                   Inl err \<Rightarrow> Inr st1
                 | Inr (updated, st2) \<Rightarrow> Inr st2)
              else Inr st1))"

text \<open>The \<open>switch\<close> of \<open>handleConfirm\<close>; a type that is none of the five does nothing.\<close>

definition persist :: "env \<Rightarrow> ParsedCapture \<Rightarrow> jsstring option \<Rightarrow> store \<Rightarrow> js_error + store" where
  "persist e captureData url st =
     (if capture_type captureData = Some (js ''task'') then
        (case tasks_create e ((spread (capture_data captureData))\<lparr>photoUrl := orNull url\<rparr>) st of
           Inl err \<Rightarrow> Inl err | Inr (r, st') \<Rightarrow> Inr st')
      else if capture_type captureData = Some (js ''event'') then
        captureEvent e (capture_data captureData) st
      else if capture_type captureData = Some (js ''expense'')
            \<or> capture_type captureData = Some (js ''income'') then
        (case transactions_create e
                ((spread (capture_data captureData))\<lparr>type := capture_type captureData,
                                                     photoUrl := orNull url\<rparr>) st of
           Inl err \<Rightarrow> Inl err | Inr (r, st') \<Rightarrow> Inr st')
      else if capture_type captureData = Some (js ''note'') then
        (case notes_create e ((spread (capture_data captureData))\<lparr>photoUrl := orNull url\<rparr>) st of
           Inl err \<Rightarrow> Inl err | Inr (r, st') \<Rightarrow> Inr st')
      else Inr st)"

text \<open>
  \<open>handleConfirm\<close> returns the state it leaves and the error it throws, if any. After
  the \<open>switch\<close> it clears the input and the photo and calls \<open>onSuccess\<close>.
\<close>

definition handleConfirm :: "env \<Rightarrow> ParsedCapture \<Rightarrow> app \<Rightarrow> app \<times> js_error option" where
  "handleConfirm e captureData a =
     (case uploadStep e captureData a of
        (url, a1) \<Rightarrow>
          (case persist e captureData url (db a1) of
             Inl err \<Rightarrow> (a1, Some err)
           | Inr st \<Rightarrow>
               (a1\<lparr>db := st, input := [], parsed := None, photoFile := None,
                   photoUploading := False, onSuccess_calls := Suc (onSuccess_calls a1)\<rparr>, None)))"

text \<open>
  \<open>handleSubmit\<close>: the whole capture. Its \<open>catch\<close> only logs, so a failed capture is one
  that ends with \<open>success\<close> false.
\<close>

definition handleSubmit :: "env \<Rightarrow> app \<Rightarrow> app" where
  "handleSubmit e a =
     (if trim (input a) = [] \<or> loading a then a
      else
        let a0 = a\<lparr>loading := True, success := False\<rparr> in
        case parseCapture e (input a) of
          Inl err \<Rightarrow> a0\<lparr>loading := False\<rparr>
        | Inr result \<Rightarrow>
           (case handleConfirm e result (a0\<lparr>parsed := Some result\<rparr>) of
              (a1, Some err) \<Rightarrow> a1\<lparr>loading := False\<rparr>
            | (a1, None) \<Rightarrow> a1\<lparr>success := True, loading := False\<rparr>))"

section \<open>Definitions for the statements\<close>

text \<open>
  An event row without its link to the external calendar and its update timestamp:
  what a push to the calendar never changes.
\<close>

definition eventCore :: "event_row \<Rightarrow> event_row" where
  "eventCore r = r\<lparr>event_google_event_id := None, event_updated_at := 0\<rparr>"

text \<open>
  What \<open>escapeHtml\<close> is to do with one code unit: the ampersand and the two angle
  brackets become entities.
\<close>

definition escapeChar :: "jschar \<Rightarrow> jsstring" where
  "escapeChar c =
     (if c = 0x26 then js ''&amp;'' else if c = 0x3C then js ''&lt;''
      else if c = 0x3E then js ''&gt;'' else [c])"

text \<open>
  The frame of an append: \<open>onlyContentChanged x r\<close> says that the row \<open>r\<close> agrees with \<open>x\<close>
  on every column but the content and the update timestamp; \<open>appendFrame x st st'\<close> that
  from \<open>st\<close> to \<open>st'\<close> nothing changed but such columns of the rows with the identifier of
  \<open>x\<close>: no row was added or removed, in any table or in the bucket.
\<close>

definition onlyContentChanged :: "note_row \<Rightarrow> note_row \<Rightarrow> bool" where
  "onlyContentChanged x r \<longleftrightarrow>
     note_id r = note_id x \<and> note_user_id r = note_user_id x \<and> note_title r = note_title x
     \<and> note_tags r = note_tags x \<and> note_is_pinned r = note_is_pinned x
     \<and> note_photo_url r = note_photo_url x \<and> note_created_at r = note_created_at x"

definition appendFrame :: "note_row \<Rightarrow> store \<Rightarrow> store \<Rightarrow> bool" where
  "appendFrame x st st' \<longleftrightarrow>
     db_tasks st' = db_tasks st \<and> db_events st' = db_events st
     \<and> db_transactions st' = db_transactions st \<and> media st' = media st
     \<and> length (db_notes st') = length (db_notes st)
     \<and> (\<forall>i < length (db_notes st).
           if note_id (db_notes st ! i) = note_id x
           then onlyContentChanged (db_notes st ! i) (db_notes st' ! i)
           else db_notes st' ! i = db_notes st ! i)"

text \<open>
  A pattern, as PostgreSQL receives it, without the characters \<open>LIKE\<close> reads as other
  than themselves: \<open>%\<close>, \<open>_\<close> and the backslash.
\<close>

definition plainPattern :: "jsstring \<Rightarrow> bool" where
  "plainPattern p \<longleftrightarrow> (\<forall>c \<in> set p. c \<noteq> 0x25 \<and> c \<noteq> 0x5F \<and> c \<noteq> 0x5C)"



text \<open>
  A string without line terminators. \<open>stopAt src i\<close>: the matcher can end group 1 before
  index \<open>i\<close> of \<open>src\<close>. \<open>isSplitPoint src i\<close> says the same without the matcher: a colon or a
  hyphen at \<open>i\<close>, no line terminator before it, and after it a rest that is not empty and
  has no line terminator once its leading white space is dropped. \<open>splitIndex\<close> is the
  first such index from 1 on.
\<close>

definition singleLine :: "jsstring \<Rightarrow> bool" where
  "singleLine s \<longleftrightarrow> (\<forall>c \<in> set s. \<not> isLineTerminator c)"

definition stopAt :: "jsstring \<Rightarrow> nat \<Rightarrow> bool" where
  "stopAt src i \<longleftrightarrow>
     isSeparator (src ! i) \<and> singleLine (take i src) \<and> match_entry (drop (Suc i) src) \<noteq> None"

definition isSplitPoint :: "jsstring \<Rightarrow> nat \<Rightarrow> bool" where
  "isSplitPoint src i \<longleftrightarrow>
     isSeparator (src ! i) \<and> singleLine (take i src) \<and> drop (Suc i) src \<noteq> []
     \<and> singleLine (dropWhile isWhiteSpace (drop (Suc i) src))"

definition splitIndex :: "jsstring \<Rightarrow> nat option" where
  "splitIndex src = find (isSplitPoint src) [1 ..< length src]"

text \<open>
  The merge decision in the words of the specification, to compare with
  \<open>extractMergeInfo\<close>: the first colon or hyphen of the trimmed source splits the bucket
  from the entry, and a half that is empty after trimming means no match.
\<close>

definition firstSeparatorSplit :: "jsstring \<Rightarrow> (jsstring \<times> jsstring) option" where
  "firstSeparatorSplit source =
     (case dropWhile (\<lambda>c. \<not> isSeparator c) source of
        [] \<Rightarrow> None
      | sep # rest \<Rightarrow> Some (takeWhile (\<lambda>c. \<not> isSeparator c) source, rest))"

definition spec_extractMergeInfo :: "ParsedData \<Rightarrow> (jsstring \<times> jsstring) option" where
  "spec_extractMergeInfo note =
     (case firstSeparatorSplit (trim (mergeSource note)) of
        None \<Rightarrow> None
      | Some (bucketHalf, entryHalf) \<Rightarrow>
          if trim bucketHalf = [] \<or> trim entryHalf = [] then None
          else Some (trim bucketHalf, trim entryHalf))"

section \<open>Sample inputs\<close>

text \<open>
  A case mapping for the samples, whose strings have no letters but those of ASCII: the
  letters A to Z go to a to z, every other code unit is left as it is.
\<close>

definition asciiLowerChar :: "jschar \<Rightarrow> jschar" where
  "asciiLowerChar c = (if 0x41 \<le> c \<and> c \<le> 0x5A then c + 0x20 else c)"

definition asciiLowerCase :: "jsstring \<Rightarrow> jsstring" where
  "asciiLowerCase s = map asciiLowerChar s"

text \<open>
  A classifier that answers five inputs: an event that ends before it starts, inside a
  markdown fence; an object whose type is none of the five; a sentence that is not
  JSON; the JSON value \<open>null\<close>; and a task without its \<open>data\<close>. \<open>sampleJSON\<close> and
  \<open>sampleDateParse\<close> are \<open>JSON.parse\<close> and the \<open>Date\<close> parser on the strings that occur.
\<close>

definition eventResponse :: jsstring where
  \<open>eventResponse = js ''```json'' @ [0x0A] @
     js ''{"type":"event","data":{"title":"Standup","startTime":"2024-03-01T15:00:00Z","endTime":"2024-03-01T14:00:00Z"}}''
     @ [0x0A] @ js ''```''\<close>

definition reminderResponse :: jsstring where
  \<open>reminderResponse = js ''{"type":"reminder","data":{"title":"Call mum"}}''\<close>

definition standupData :: ParsedData where
  "standupData = noData\<lparr>title := Some (js ''Standup''),
     startTime := Some (DateString (js ''2024-03-01T15:00:00Z'')),
     endTime := Some (DateString (js ''2024-03-01T14:00:00Z''))\<rparr>"

definition standupCapture :: ParsedCapture where
  "standupCapture = \<lparr>capture_type = Some (js ''event''), capture_data = Some standupData\<rparr>"

definition reminderCapture :: ParsedCapture where
  "reminderCapture = \<lparr>capture_type = Some (js ''reminder''),
     capture_data = Some (noData\<lparr>title := Some (js ''Call mum'')\<rparr>)\<rparr>"

definition bareTaskResponse :: jsstring where
  \<open>bareTaskResponse = js ''{"type":"task"}''\<close>

definition bareTaskCapture :: ParsedCapture where
  "bareTaskCapture = \<lparr>capture_type = Some (js ''task''), capture_data = None\<rparr>"

definition sampleJSON :: "jsstring \<Rightarrow> json_result option" where
  \<open>sampleJSON s =
     (if s = js ''{"type":"event","data":{"title":"Standup","startTime":"2024-03-01T15:00:00Z","endTime":"2024-03-01T14:00:00Z"}}''
      then Some (JsonObject standupCapture)
      else if s = reminderResponse then Some (JsonObject reminderCapture)
      else if s = js ''null'' then Some JsonNull
      else if s = bareTaskResponse then Some (JsonObject bareTaskCapture)
      else None)\<close>

definition sampleDateParse :: "jsstring \<Rightarrow> int option" where
  "sampleDateParse s =
     (if s = js ''2024-03-01T15:00:00Z'' then Some 1709305200000
      else if s = js ''2024-03-01T14:00:00Z'' then Some 1709301600000
      else None)"

definition sampleClassifier :: "jsstring \<Rightarrow> jsstring option" where
  "sampleClassifier i =
     (if i = js ''standup 3pm to 2pm'' then Some eventResponse
      else if i = js ''remind me to call mum'' then Some reminderResponse
      else if i = js ''hello'' then Some (js ''Sorry, I cannot parse that.'')
      else if i = js ''nothing'' then Some (js ''null'')
      else if i = js ''buy milk'' then Some bareTaskResponse
      else None)"

text \<open>
  A signed-in user without a Google session, on 1 March 2024 at 15:30 UTC, in a browser
  on UTC; no query fails.
\<close>

definition env0 :: env where
  "env0 = \<lparr>auth_user = Some (js ''u1''), db_error = (\<lambda>c. False), record_uuid = js ''id-1'',
     upload_uuid = js ''id-2'', now = 1709307000000, db_now = 1709307000001,
     tz_offset = (\<lambda>t. 0), tz_offset_local = (\<lambda>l. 0),
     date_parse = sampleDateParse, toLowerCase = asciiLowerCase, pg_lower = asciiLowerCase,
     upload_error = False,
     publicUrl = (\<lambda>f. Some (js ''https://cdn/'' @ f)),
     provider_token = None, resolved_timeZone = js ''UTC'',
     fetch = (\<lambda>m ep b. NetworkFailure),
     generateContent = sampleClassifier,
     JSON_parse = sampleJSON\<rparr>"

text \<open>
  The same in a browser five hours behind UTC, and with a storage service that is down.
\<close>

definition envNY :: env where
  "envNY = env0\<lparr>tz_offset := (\<lambda>t. - 18000000), tz_offset_local := (\<lambda>l. - 18000000)\<rparr>"


text \<open>
  An empty store, the component before any input, and the captures and rows of the examples.
\<close>

definition store0 :: store where
  "store0 = \<lparr>db_tasks = [], db_events = [], db_notes = [], db_transactions = [], media = []\<rparr>"

definition app0 :: app where
  "app0 = \<lparr>db = store0, input = [], loading = False, success = False, parsed = None,
     photoFile = None, photoUploading = False, notice = None, onSuccess_calls = 0\<rparr>"

definition standupApp :: app where
  "standupApp = app0\<lparr>input := js ''standup 3pm to 2pm''\<rparr>"

definition standupEvent :: event_row where
  "standupEvent = \<lparr>event_id = js ''id-1'', event_user_id = js ''u1'',
     event_title = Some (js ''Standup''), event_description = None,
     event_start_time = 1709305200000, event_end_time = 1709301600000,
     event_location = None, event_is_recurring = False, event_recurrence_rule = None,
     event_google_event_id = None, event_color = js ''#cba6f7'',
     event_created_at = 1709307000001, event_updated_at = 1709307000001\<rparr>"

definition standupParsed :: ParsedCapture where
  "standupParsed = \<lparr>capture_type = Some (js ''event''),
     capture_data = Some (standupData\<lparr>startTime := Some (DateObject (Some 1709305200000)),
                                       endTime := Some (DateObject (Some 1709301600000))\<rparr>)\<rparr>"

definition plainNote :: ParsedData where
  "plainNote = noData\<lparr>content := Some (js ''The wifi password at the office is hunter2, ask Sam for the guest one'')\<rparr>"

definition plainRow :: note_row where
  "plainRow = \<lparr>note_id = js ''id-1'', note_user_id = js ''u1'',
     note_title = js ''The wifi password at the office is hunter2, ask Sa'',
     note_content = Some (js ''The wifi password at the office is hunter2, ask Sam for the guest one''),
     note_tags = [], note_is_pinned = False, note_photo_url = None,
     note_created_at = 1709307000001, note_updated_at = 1709307000001\<rparr>"

definition groceriesNote :: note_row where
  "groceriesNote = \<lparr>note_id = js ''n1'', note_user_id = js ''u1'', note_title = js ''Groceries'',
     note_content = Some (js ''<div>eggs</div>''), note_tags = [js ''list''], note_is_pinned = True,
     note_photo_url = Some (js ''https://cdn/note/p.jpg''), note_created_at = 1000, note_updated_at = 2000\<rparr>"

definition groceriesStore :: store where
  "groceriesStore = store0\<lparr>db_notes := [groceriesNote]\<rparr>"

definition blankNote :: note_row where
  "blankNote = groceriesNote\<lparr>note_content := Some (js '' '')\<rparr>"

definition milkCapture :: ParsedData where
  "milkCapture = noData\<lparr>title := Some (js ''groceries: milk & <b>honey</b>'')\<rparr>"

definition milkItem :: jsstring where
  "milkItem = js ''<div>'' @ [0xE2, 0x20AC, 0xA2, 0x20] @ js ''milk &amp; &lt;b&gt;honey&lt;/b&gt;'' @ js ''</div>''"

definition groceriesAppended :: note_row where
  "groceriesAppended = groceriesNote\<lparr>note_content := Some (js ''<div>eggs</div><br />'' @ milkItem),
     note_updated_at := 1709307000001\<rparr>"

definition groceriesAppendedLocal :: note_row where
  "groceriesAppendedLocal = groceriesAppended\<lparr>note_updated_at := 1709307000000\<rparr>"

definition dashNote :: note_row where
  "dashNote = \<lparr>note_id = js ''n1'', note_user_id = js ''u1'', note_title = js ''to-do'',
     note_content = Some (js ''<div>water the plants</div>''), note_tags = [], note_is_pinned = False,
     note_photo_url = None, note_created_at = 1000, note_updated_at = 2000\<rparr>"

definition paddedNote :: note_row where
  "paddedNote = dashNote\<lparr>note_id := js ''n2'', note_title := js '' to_do ''\<rparr>"

definition todoStore :: store where
  "todoStore = store0\<lparr>db_notes := [paddedNote]\<rparr>"

definition mixedStore :: store where
  "mixedStore = store0\<lparr>db_notes := [paddedNote, groceriesNote]\<rparr>"

definition todoCapture :: ParsedData where
  "todoCapture = noData\<lparr>title := Some (js ''to_do: call Sam'')\<rparr>"

definition listItem :: ParsedData where
  "listItem = noData\<lparr>title := Some (js ''- milk: 2 litres'')\<rparr>"







section \<open>Lemmas\<close>

lemma js_kinds_distinct:
  "js ''event'' \<noteq> js ''task''" "js ''event'' \<noteq> js ''note''" "js ''event'' \<noteq> js ''expense''"
  "js ''event'' \<noteq> js ''income''" "js ''task'' \<noteq> js ''note''" "js ''task'' \<noteq> js ''expense''"
  "js ''task'' \<noteq> js ''income''" "js ''note'' \<noteq> js ''expense''" "js ''note'' \<noteq> js ''income''"
  "js ''expense'' \<noteq> js ''income''"
  by (simp_all add: js_def)

subsection \<open>The event branch\<close>

lemma events_create_valid:
  assumes "startTime d = Some (DateObject (Some s))" "endTime d = Some (DateObject (Some t))"
    "auth_user e = Some u" "\<not> db_error e EventsInsert"
  shows "\<exists>r. events_create e d st = Inr (r, st\<lparr>db_events := db_events st @ [r]\<rparr>)
     \<and> event_id r = record_uuid e \<and> event_start_time r = s \<and> event_end_time r = t
     \<and> event_google_event_id r = None"
  using assms
  by (simp add: events_create_def getUserId_def requiredISOString_def toISOString_def Let_def)

lemma events_create_appends:
  assumes "events_create e d st = Inr (r, st1)"
  shows "st1 = st\<lparr>db_events := db_events st @ [r]\<rparr> \<and> event_google_event_id r = None
     \<and> event_id r = record_uuid e"
  using assms
  by (auto simp: events_create_def Let_def split: sum.splits if_splits)

lemma events_update_frame:
  assumes "events_update e i g st = Inr (upd, st2)"
  shows "map eventCore (db_events st2) = map eventCore (db_events st)
     \<and> st2 = st\<lparr>db_events := db_events st2\<rparr>"
  using assms
  by (auto simp: events_update_def Let_def eventCore_def split: list.splits if_splits)

lemma captureEvent_after_create:
  assumes "events_create e d st = Inr (r, st1)"
  shows "\<exists>st2. captureEvent e (Some d) st = Inr st2
      \<and> map eventCore (db_events st2) = map eventCore (db_events st1)
      \<and> st2 = st1\<lparr>db_events := db_events st2\<rparr>
      \<and> (isl (pushToGoogleCalendar e r) \<longrightarrow> st2 = st1)"
  using assms
  by (auto simp: captureEvent_def dest: events_update_frame split: sum.splits)

lemma supportsPhoto_event: "\<not> supportsPhoto (Some (js ''event''))"
  by (simp add: supportsPhoto_def js_kinds_distinct)

lemma uploadStep_event:
  assumes "capture_type c = Some (js ''event'')"
  shows "fst (uploadStep e c a) = None \<and> db (snd (uploadStep e c a)) = db a"
  using assms by (simp add: uploadStep_def supportsPhoto_event split: option.splits)

lemma persist_event:
  assumes "capture_type c = Some (js ''event'')"
  shows "persist e c url st = captureEvent e (capture_data c) st"
  using assms by (simp add: persist_def js_kinds_distinct)

lemma handleConfirm_event:
  assumes "capture_type c = Some (js ''event'')" "capture_data c = Some d"
    "events_create e d (db a) = Inr (r, st1)"
  shows "snd (handleConfirm e c a) = None
     \<and> map eventCore (db_events (db (fst (handleConfirm e c a)))) = map eventCore (db_events st1)
     \<and> (isl (pushToGoogleCalendar e r) \<longrightarrow> db (fst (handleConfirm e c a)) = st1)"
proof -
  obtain url a1 where u: "uploadStep e c a = (url, a1)" by (cases "uploadStep e c a")
  with uploadStep_event[OF assms(1), of e a] have a1: "db a1 = db a" by simp
  from captureEvent_after_create[OF assms(3)] obtain st2 where
    st2: "captureEvent e (Some d) (db a) = Inr st2"
      "map eventCore (db_events st2) = map eventCore (db_events st1)"
      "isl (pushToGoogleCalendar e r) \<longrightarrow> st2 = st1" by blast
  have "persist e c url (db a1) = Inr st2"
    using persist_event[OF assms(1)] assms(2) st2(1) a1 by simp
  then show ?thesis using u st2 by (simp add: handleConfirm_def)
qed

lemma push_unauthenticated:
  assumes "\<not> truthy (provider_token e)"
  shows "pushToGoogleCalendar e r = Inl (Error ''Not authenticated with Google'')"
  using assms
  by (simp add: pushToGoogleCalendar_def googleCalendarRequest_def getGoogleAccessToken_def Let_def)

lemma eventCore_fields:
  "eventCore r' = eventCore r \<Longrightarrow>
     event_id r' = event_id r \<and> event_start_time r' = event_start_time r
     \<and> event_end_time r' = event_end_time r"
  by (cases r, cases r') (simp add: eventCore_def)

lemma parseCapture_event:
  assumes "generateContent e inp = Some response"
    "JSON_parse e (cleanText (trim response)) = Some (JsonObject c)"
    "capture_type c = Some (js ''event'')" "capture_data c = Some d"
    "startTime d = Some (DateString s1)" "date_parse e s1 = Some s"
    "endTime d = Some (DateString t1)" "date_parse e t1 = Some t"
  shows "parseCapture e inp = Inr (c\<lparr>capture_data := Some (d\<lparr>startTime := Some (DateObject (Some s)),
            endTime := Some (DateObject (Some t))\<rparr>)\<rparr>)"
  using assms by (simp add: parseCapture_def convertDates_def newDate_def js_kinds_distinct)

lemma handleSubmit_ok:
  assumes "trim (input a) \<noteq> []" "\<not> loading a" "parseCapture e (input a) = Inr c"
    "handleConfirm e c (a\<lparr>loading := True, success := False, parsed := Some c\<rparr>) = (a1, None)"
  shows "handleSubmit e a = a1\<lparr>success := True, loading := False\<rparr>"
  using assms by (simp add: handleSubmit_def Let_def)

subsection \<open>Creating and appending notes\<close>

lemma extractMergeInfo_nonempty:
  "extractMergeInfo d = Some (b, en) \<Longrightarrow> b \<noteq> [] \<and> en \<noteq> []"
  by (auto simp: extractMergeInfo_def Let_def split: option.splits if_splits)

lemma notes_create_no_merge:
  assumes "extractMergeInfo d = None" "auth_user e = Some u"
  shows "notes_create e d st = notes_insert e u d st"
  using assms by (simp add: notes_create_def getUserId_def)

lemma notes_create_new_bucket:
  assumes "extractMergeInfo d = Some (b, en)" "auth_user e = Some u" "\<not> db_error e NotesSelect"
    "existingNotes e u b (db_notes st) = Some []"
  shows "notes_create e d st
     = notes_insert e u (d\<lparr>title := Some b, content := Some (entryMarkup (escapeHtml en))\<rparr>) st"
  using assms by (simp add: notes_create_def getUserId_def Let_def)

lemma notes_insert_titled:
  assumes "title d = Some t" "t \<noteq> []" "\<not> db_error e NotesInsert"
  shows "\<exists>r. notes_insert e u d st = Inr (r, st\<lparr>db_notes := db_notes st @ [r]\<rparr>)
     \<and> note_title r = t \<and> note_content r = content d
     \<and> note_photo_url r = orNull (photoUrl d) \<and> note_id r = record_uuid e"
  using assms by (simp add: notes_insert_def truthy_def Let_def orNull_def)

lemma notes_insert_untitled:
  assumes "\<not> truthy (title d)" "content d = Some c" "\<not> db_error e NotesInsert"
  shows "\<exists>r. notes_insert e u d st = Inr (r, st\<lparr>db_notes := db_notes st @ [r]\<rparr>)
     \<and> note_title r = take 50 c \<and> note_content r = Some c
     \<and> note_photo_url r = orNull (photoUrl d) \<and> note_id r = record_uuid e"
  using assms by (simp add: notes_insert_def Let_def substring0_def orNull_def)

lemma notes_insert_result:
  assumes "notes_insert e u d st = Inr (r, st')"
  shows "st' = st\<lparr>db_notes := db_notes st @ [r]\<rparr> \<and> note_content r = content d"
  using assms by (auto simp: notes_insert_def Let_def split: if_splits)

lemma local_notes_insert_titled:
  assumes "title d = Some t" "t \<noteq> []"
  shows "\<exists>r. local_notes_insert e d st = Inr (r, st\<lparr>db_notes := db_notes st @ [r]\<rparr>)
     \<and> note_title r = t"
  using assms by (simp add: local_notes_insert_def truthy_def Let_def)

lemma existingNotes_Cons_mem:
  assumes "existingNotes e u b rows = Some (x # xs)"
  shows "x \<in> set rows \<and> xs = []"
  using assms
  by (induction rows) (auto split: if_splits like_result.splits)

lemma notes_create_append:
  assumes "extractMergeInfo d = Some (b, en)" "auth_user e = Some u"
    "existingNotes e u b (db_notes st) = Some (x # xs)" "notes_create e d st = Inr (r, st')"
  shows "st' = st\<lparr>db_notes := notes_update_content e (note_id x)
                   (newContent (baseContent (note_content x)) (entryMarkup (escapeHtml en))) (db_notes st)\<rparr>
     \<and> filter (\<lambda>n. note_id n = note_id x) (db_notes st') = [r]"
  using assms
  by (auto simp: notes_create_def getUserId_def Let_def split: if_splits list.splits)

lemma filter_map_singleton:
  assumes "filter P (map f rows) = [r]" "x \<in> set rows" "P (f x)"
  shows "r = f x"
proof -
  have "f x \<in> set (filter P (map f rows))" using assms(2,3) by auto
  with assms(1) show ?thesis by simp
qed

lemma notes_create_append_row:
  assumes "extractMergeInfo d = Some (b, en)" "auth_user e = Some u"
    "existingNotes e u b (db_notes st) = Some (x # xs)" "notes_create e d st = Inr (r, st')"
  shows "r = x\<lparr>note_content := Some (newContent (baseContent (note_content x)) (entryMarkup (escapeHtml en))),
               note_updated_at := db_now e\<rparr>"
proof -
  let ?c = "newContent (baseContent (note_content x)) (entryMarkup (escapeHtml en))"
  let ?f = "\<lambda>n. if note_id n = note_id x then n\<lparr>note_content := Some ?c, note_updated_at := db_now e\<rparr> else n"
  note nc = notes_create_append[OF assms]
  have s: "st' = st\<lparr>db_notes := map ?f (db_notes st)\<rparr>"
    using conjunct1[OF nc] by (simp add: notes_update_content_def)
  have f: "filter (\<lambda>n. note_id n = note_id x) (db_notes st') = [r]"
    by (rule conjunct2[OF nc])
  have "db_notes st' = map ?f (db_notes st)" by (subst s) simp
  with f have "filter (\<lambda>n. note_id n = note_id x) (map ?f (db_notes st)) = [r]"
    by (simp only:)
  moreover have "x \<in> set (db_notes st)" using existingNotes_Cons_mem[OF assms(3)] by simp
  ultimately have "r = ?f x" by (rule filter_map_singleton) simp
  then show ?thesis by simp
qed

lemma notes_update_content_frame:
  "appendFrame x st (st\<lparr>db_notes := notes_update_content e (note_id x) c (db_notes st)\<rparr>)"
  by (simp add: appendFrame_def notes_update_content_def onlyContentChanged_def)

lemma local_existing_mem:
  assumes "local_existing e b rows = Some x"
  shows "x \<in> set rows"
proof -
  from assms have "x \<in> set (toArray rows)"
    by (auto simp: local_existing_def find_Some_iff)
  then show ?thesis by (simp add: toArray_def)
qed

lemma find_map_distinct:
  assumes "find (\<lambda>n. note_id n = i) (map f rows) = Some r" "distinct (map note_id rows)"
    "x \<in> set rows" "note_id x = i" "\<And>n. note_id (f n) = note_id n"
  shows "r = f x"
proof -
  from assms(1) have "r \<in> set (map f rows)" "note_id r = i"
    by (auto simp: find_Some_iff)
  then obtain y where y: "y \<in> set rows" "r = f y" by auto
  with \<open>note_id r = i\<close> assms(5) have "note_id y = i" by simp
  moreover have "inj_on note_id (set rows)" using assms(2) by (simp add: distinct_map)
  ultimately have "y = x" using assms(3,4) y(1) by (auto dest: inj_onD)
  with y show ?thesis by simp
qed

lemma local_notes_create_append:
  assumes "extractMergeInfo d = Some (b, en)" "local_existing e b (db_notes st) = Some x"
    "distinct (map note_id (db_notes st))" "local_notes_create e d st = Inr (r, st')"
  shows "st' = st\<lparr>db_notes := map (\<lambda>n. if note_id n = note_id x
              then n\<lparr>note_content := Some (local_newContent (note_content x) (entryMarkup (escapeHtml en))),
                     note_updated_at := now e\<rparr> else n) (db_notes st)\<rparr>
     \<and> r = x\<lparr>note_content := Some (local_newContent (note_content x) (entryMarkup (escapeHtml en))),
             note_updated_at := now e\<rparr>"
proof -
  let ?c = "local_newContent (note_content x) (entryMarkup (escapeHtml en))"
  let ?f = "\<lambda>n. if note_id n = note_id x then n\<lparr>note_content := Some ?c, note_updated_at := now e\<rparr> else n"
  from assms(1,2,4)
  have fr: "find (\<lambda>n. note_id n = note_id x) (map ?f (db_notes st)) = Some r"
    and s: "st' = st\<lparr>db_notes := map ?f (db_notes st)\<rparr>"
    by (auto simp: local_notes_create_def Let_def split: option.splits)
  have "r = ?f x"
    by (rule find_map_distinct[OF fr assms(3) local_existing_mem[OF assms(2)]]) simp_all
  with s show ?thesis by simp
qed

lemma map_update_frame:
  "appendFrame x st (st\<lparr>db_notes := map (\<lambda>n. if note_id n = note_id x
       then n\<lparr>note_content := c, note_updated_at := t\<rparr> else n) (db_notes st)\<rparr>)"
  by (simp add: appendFrame_def onlyContentChanged_def)

lemma groceries_append:
  "extractMergeInfo milkCapture = Some (js ''groceries'', js ''milk & <b>honey</b>'')
   \<and> auth_user env0 = Some (js ''u1'')
   \<and> existingNotes env0 (js ''u1'') (js ''groceries'') (db_notes (store0\<lparr>db_notes := [groceriesNote]\<rparr>))
        = Some [groceriesNote]
   \<and> note_content groceriesNote = Some (js ''<div>eggs</div>'')
   \<and> notes_create env0 milkCapture (store0\<lparr>db_notes := [groceriesNote]\<rparr>)
        = Inr (groceriesAppended, store0\<lparr>db_notes := [groceriesAppended]\<rparr>)"
  by code_simp

lemma plainNote_created:
  "notes_create env0 plainNote store0 = Inr (plainRow, store0\<lparr>db_notes := [plainRow]\<rparr>)"
  by code_simp

subsection \<open>\<open>escapeHtml\<close>, one code unit at a time\<close>

lemma replaceAll_append: "replaceAll c r (a @ b) = replaceAll c r a @ replaceAll c r b"
  by (simp add: replaceAll_def)

lemma replaceAll_Cons: "replaceAll c r (x # xs) = (if x = c then r else [x]) @ replaceAll c r xs"
  by (simp add: replaceAll_def)

lemma replaceAll_Nil: "replaceAll c r [] = []"
  by (simp add: replaceAll_def)

lemma escapeHtml_Cons: "escapeHtml (c # cs) = escapeChar c @ escapeHtml cs"
  by (simp add: escapeHtml_def escapeChar_def replaceAll_Cons replaceAll_append replaceAll_Nil js_def)

lemma escapeHtml_chars: "escapeHtml s = concat (map escapeChar s)"
proof (induction s)
  case Nil
  show ?case by (simp add: escapeHtml_def replaceAll_Nil)
next
  case (Cons c cs)
  then show ?case by (simp add: escapeHtml_Cons)
qed

lemma escapeChar_no_angle: "x \<in> set (escapeChar c) \<Longrightarrow> x \<noteq> 0x3C \<and> x \<noteq> 0x3E"
  by (auto simp: escapeChar_def js_def split: if_splits)

lemma escapeHtml_no_angle: "x \<in> set (escapeHtml s) \<Longrightarrow> x \<noteq> 0x3C \<and> x \<noteq> 0x3E"
  unfolding escapeHtml_chars using escapeChar_no_angle by auto

subsection \<open>\<open>ILIKE\<close> on a plain pattern\<close>

lemma MatchText_plain:
  assumes "plainPattern p"
  shows "(MatchText t p = LIKE_TRUE \<longleftrightarrow> t = p) \<and> MatchText t p \<noteq> LIKE_ERROR"
  using assms
proof (induction p arbitrary: t)
  case Nil
  show ?case by simp
next
  case (Cons x ps)
  then have p: "plainPattern ps" and x: "x \<noteq> 0x25" "x \<noteq> 0x5F" "x \<noteq> 0x5C"
    by (simp_all add: plainPattern_def)
  show ?case
  proof (cases t)
    case Nil
    then show ?thesis using x by simp
  next
    case (Cons c cs)
    then show ?thesis using x Cons.IH[OF p, of cs] by auto
  qed
qed

lemma postgrestPattern_plain: "0x2A \<notin> set b \<Longrightarrow> postgrestPattern b = b"
  by (induction b) (simp_all add: postgrestPattern_def)

lemma ilike_plain:
  assumes "0x2A \<notin> set b" "plainPattern (pg_lower e b)"
  shows "(ilike e t b = LIKE_TRUE \<longleftrightarrow> pg_lower e t = pg_lower e b) \<and> ilike e t b \<noteq> LIKE_ERROR"
  using MatchText_plain[OF assms(2), of "pg_lower e t"] postgrestPattern_plain[OF assms(1)]
  by (simp add: ilike_def)

lemma existingNotes_plain:
  assumes "0x2A \<notin> set b" "plainPattern (pg_lower e b)"
  shows "existingNotes e u b rows
     = Some (take 1 (filter (\<lambda>n. note_user_id n = u \<and> pg_lower e (note_title n) = pg_lower e b) rows))"
proof (induction rows)
  case Nil
  show ?case by simp
next
  case (Cons n rows)
  show ?case
  proof (cases "note_user_id n = u")
    case False
    then show ?thesis using Cons by simp
  next
    case True
    note i = ilike_plain[OF assms, of "note_title n"]
    show ?thesis
    proof (cases "ilike e (note_title n) b")
      case LIKE_TRUE
      then show ?thesis using True i by simp
    next
      case LIKE_FALSE
      then show ?thesis using True i Cons by simp
    next
      case LIKE_ABORT
      then show ?thesis using True i Cons by simp
    next
      case LIKE_ERROR
      then show ?thesis using i by simp
    qed
  qed
qed

subsection \<open>The store operations and the bucket of photos\<close>























subsection \<open>The regular expression\<close>

lemma dotPlusEnd_singleLine:
  "dotPlusEnd s = (if s \<noteq> [] \<and> singleLine s then Some s else None)"
  by (simp add: dotPlusEnd_def singleLine_def)

lemma lineTerminator_is_space: "isLineTerminator c \<Longrightarrow> isWhiteSpace c"
  by (simp add: isWhiteSpace_def)

lemma singleLine_dropWhile: "singleLine s \<Longrightarrow> singleLine (dropWhile P s)"
  unfolding singleLine_def using set_dropWhileD by fast

lemma match_entry_trimmed:
  assumes "rest = [] \<or> \<not> isWhiteSpace (last rest)"
  shows "match_entry rest =
     (if rest \<noteq> [] \<and> singleLine (dropWhile isWhiteSpace rest)
      then Some (dropWhile isWhiteSpace rest) else None)"
  using assms
proof (induction rest)
  case Nil
  show ?case by simp
next
  case (Cons c cs)
  show ?case
  proof (cases "isWhiteSpace c")
    case False
    then show ?thesis by (simp add: dotPlusEnd_singleLine)
  next
    case True
    with Cons.prems have cs: "cs \<noteq> []" "\<not> isWhiteSpace (last cs)"
      by (auto split: if_splits)
    then have ih: "match_entry cs =
       (if singleLine (dropWhile isWhiteSpace cs) then Some (dropWhile isWhiteSpace cs) else None)"
      using Cons.IH by simp
    show ?thesis
    proof (cases "singleLine (dropWhile isWhiteSpace cs)")
      case sl: True
      then show ?thesis using True ih by simp
    next
      case nsl: False
      then have "\<not> singleLine (c # cs)" using singleLine_dropWhile[of "c # cs" isWhiteSpace] True
        by auto
      then show ?thesis using True ih nsl by (simp add: dotPlusEnd_singleLine)
    qed
  qed
qed

lemma find_upt_none:
  assumes "\<And>i. a \<le> i \<Longrightarrow> i < b \<Longrightarrow> \<not> P i"
  shows "find P [a..<b] = None"
  using assms by (simp add: find_None_iff)

lemma match_bucket_find_aux:
  assumes "singleLine pre" "src = pre @ s"
  shows "match_bucket pre s =
     (case find (stopAt src) [max 1 (length pre) ..< length src] of
        None \<Rightarrow> None
      | Some i \<Rightarrow> Some (take i src, the (match_entry (drop (Suc i) src))))"
  using assms
proof (induction s arbitrary: pre)
  case Nil
  have "find (stopAt src) [max 1 (length pre) ..< length src] = None"
    by (rule find_upt_none) (use Nil in simp)
  then show ?case by simp
next
  case (Cons c cs)
  let ?res = "\<lambda>n. case find (stopAt src) [n ..< length src] of
        None \<Rightarrow> None
      | Some i \<Rightarrow> Some (take i src, the (match_entry (drop (Suc i) src)))"
  have src: "src = (pre @ [c]) @ cs" using Cons.prems by simp
  have len: "length pre < length src" using Cons.prems by simp
  have late: "?res (Suc (length pre)) = None" if "isLineTerminator c"
  proof -
    have "find (stopAt src) [Suc (length pre) ..< length src] = None"
    proof (rule find_upt_none)
      fix i assume "Suc (length pre) \<le> i" "i < length src"
      then have "c \<in> set (take i src)" using Cons.prems(2) by (auto simp: take_Cons')
      with that show "\<not> stopAt src i" by (auto simp: stopAt_def singleLine_def)
    qed
    then show ?thesis by simp
  qed
  have ih: "match_bucket (pre @ [c]) cs = ?res (Suc (length pre))" if "\<not> isLineTerminator c"
  proof -
    have sl: "singleLine (pre @ [c])" using Cons.prems(1) that by (simp add: singleLine_def)
    have "max 1 (length (pre @ [c])) = Suc (length pre)" by simp
    with Cons.IH[OF sl src] show ?thesis by (simp only:)
  qed
  have tail: "(if isLineTerminator c then None else match_bucket (pre @ [c]) cs) = ?res (Suc (length pre))"
    using late ih by (cases "isLineTerminator c") simp_all
  show ?case
  proof (cases "pre = []")
    case True
    then have "max 1 (length pre) = Suc (length pre)" by simp
    moreover have "match_bucket pre (c # cs) = (if isLineTerminator c then None else match_bucket (pre @ [c]) cs)"
      using True by simp
    ultimately show ?thesis using tail by (simp only:)
  next
    case ne: False
    then have m: "max 1 (length pre) = length pre" by (cases pre) simp_all
    have rng: "[length pre ..< length src] = length pre # [Suc (length pre) ..< length src]"
      using len by (simp add: upt_conv_Cons)
    have nth: "src ! length pre = c" "drop (Suc (length pre)) src = cs" "take (length pre) src = pre"
      using Cons.prems(2) by simp_all
    have st: "stopAt src (length pre) \<longleftrightarrow> isSeparator c \<and> match_entry cs \<noteq> None"
      using Cons.prems(1) nth by (simp add: stopAt_def)
    show ?thesis
    proof (cases "isSeparator c \<and> match_entry cs \<noteq> None")
      case True
      then obtain en where en: "match_entry cs = Some en" by auto
      have "?res (length pre) = Some (pre, en)"
        using True st en nth by (simp add: rng)
      moreover have "match_bucket pre (c # cs) = Some (pre, en)" using ne True en by simp
      ultimately show ?thesis using m by (simp only:)
    next
      case nostop: False
      then have f: "(if pre \<noteq> [] \<and> isSeparator c then match_entry cs else None) = None"
        by auto
      have ns: "\<not> stopAt src (length pre)" using nostop st by blast
      have "?res (length pre) = ?res (Suc (length pre))"
        using ns by (simp add: rng)
      moreover have "match_bucket pre (c # cs) = (if isLineTerminator c then None else match_bucket (pre @ [c]) cs)"
        using f by simp
      ultimately show ?thesis using tail m by (simp only:)
    qed
  qed
qed

lemma regexMatch_find:
  "regexMatch src =
     (case find (stopAt src) [1 ..< length src] of
        None \<Rightarrow> None
      | Some i \<Rightarrow> Some (take i src, the (match_entry (drop (Suc i) src))))"
  using match_bucket_find_aux[of "[]" src src] by (simp add: regexMatch_def singleLine_def)

lemma dropWhile_Nil_all: "dropWhile P s = [] \<longleftrightarrow> (\<forall>c \<in> set s. P c)"
  by (simp add: dropWhile_eq_Nil_conv)

lemma all_dropWhile: "(\<forall>c \<in> set (dropWhile P s). P c) \<longleftrightarrow> (\<forall>c \<in> set s. P c)"
proof
  assume a: "\<forall>c \<in> set (dropWhile P s). P c"
  have "dropWhile P s = []"
  proof (rule ccontr)
    assume n: "dropWhile P s \<noteq> []"
    then have "\<not> P (hd (dropWhile P s))" by (rule hd_dropWhile)
    moreover have "hd (dropWhile P s) \<in> set (dropWhile P s)" using n by simp
    ultimately show False using a by blast
  qed
  then show "\<forall>c \<in> set s. P c" by (simp add: dropWhile_Nil_all)
next
  assume "\<forall>c \<in> set s. P c"
  then show "\<forall>c \<in> set (dropWhile P s). P c" using set_dropWhileD by fast
qed

lemma trim_eq_Nil: "trim s = [] \<longleftrightarrow> (\<forall>c \<in> set s. isWhiteSpace c)"
proof -
  have "trim s = [] \<longleftrightarrow> dropWhile isWhiteSpace (rev (dropWhile isWhiteSpace s)) = []"
    by (simp add: trim_def)
  also have "\<dots> \<longleftrightarrow> (\<forall>c \<in> set (dropWhile isWhiteSpace s). isWhiteSpace c)"
    by (simp add: dropWhile_Nil_all)
  also have "\<dots> \<longleftrightarrow> (\<forall>c \<in> set s. isWhiteSpace c)" by (rule all_dropWhile)
  finally show ?thesis .
qed

lemma trim_ends:
  assumes "trim s \<noteq> []"
  shows "\<not> isWhiteSpace (hd (trim s)) \<and> \<not> isWhiteSpace (last (trim s))"
proof -
  let ?t = "dropWhile isWhiteSpace s"
  let ?u = "dropWhile isWhiteSpace (rev ?t)"
  have u: "?u \<noteq> []" using assms by (simp add: trim_def)
  have t: "?t \<noteq> []"
  proof
    assume "?t = []"
    then have "?u = []" by (simp only: rev.simps dropWhile.simps)
    with u show False by simp
  qed
  have "\<not> isWhiteSpace (hd ?u)" using u by (rule hd_dropWhile)
  then have l: "\<not> isWhiteSpace (last (trim s))" using u by (simp add: trim_def last_rev)
  have "\<not> isWhiteSpace (hd ?t)" using t by (rule hd_dropWhile)
  moreover have "last ?u = last (rev ?t)"
  proof -
    have "rev ?t = takeWhile isWhiteSpace (rev ?t) @ ?u" by simp
    then have "last (rev ?t) = last (takeWhile isWhiteSpace (rev ?t) @ ?u)" by simp
    also have "\<dots> = last ?u" using u by (rule last_appendR)
    finally show ?thesis by simp
  qed
  moreover have "last (rev ?t) = hd ?t" using t by (simp add: last_rev)
  ultimately have "\<not> isWhiteSpace (hd (trim s))" using u by (simp add: trim_def hd_rev)
  with l show ?thesis by simp
qed

lemma trim_dropWhile: "trim (dropWhile isWhiteSpace s) = trim s"
  by (simp add: trim_def)

lemma stopAt_trimmed:
  assumes "src = trim x" "i < length src"
  shows "stopAt src i = isSplitPoint src i
     \<and> (isSplitPoint src i \<longrightarrow>
          match_entry (drop (Suc i) src) = Some (dropWhile isWhiteSpace (drop (Suc i) src)))"
proof -
  let ?rest = "drop (Suc i) src"
  have ne: "trim x \<noteq> []" using assms by auto
  have "?rest = [] \<or> \<not> isWhiteSpace (last ?rest)"
  proof (cases "?rest = []")
    case True
    then show ?thesis by simp
  next
    case False
    then have "Suc i < length src" by simp
    then have "last ?rest = last src" by (rule last_drop)
    then show ?thesis using trim_ends[OF ne] assms(1) by simp
  qed
  from match_entry_trimmed[OF this] show ?thesis
    by (auto simp: stopAt_def isSplitPoint_def)
qed

lemma splitIndex_bounds:
  assumes "splitIndex src = Some i"
  shows "1 \<le> i \<and> i < length src \<and> isSplitPoint src i"
  using assms by (auto simp: splitIndex_def find_Some_iff)

lemma regexMatch_trimmed:
  assumes "src = trim x"
  shows "regexMatch src =
     (case splitIndex src of
        None \<Rightarrow> None
      | Some i \<Rightarrow> Some (take i src, dropWhile isWhiteSpace (drop (Suc i) src)))"
proof -
  have eq: "find (stopAt src) [1 ..< length src] = splitIndex src"
    unfolding splitIndex_def
    by (rule find_cong) (use stopAt_trimmed[OF assms] in auto)
  show ?thesis
  proof (cases "splitIndex src")
    case None
    then show ?thesis using eq by (simp add: regexMatch_find)
  next
    case (Some i)
    from splitIndex_bounds[OF Some] stopAt_trimmed[OF assms, of i]
    have "match_entry (drop (Suc i) src) = Some (dropWhile isWhiteSpace (drop (Suc i) src))"
      by blast
    then show ?thesis using eq Some by (simp add: regexMatch_find)
  qed
qed

lemma extractMergeInfo_split:
  "extractMergeInfo note =
     (case splitIndex (trim (mergeSource note)) of
        None \<Rightarrow> None
      | Some i \<Rightarrow> Some (trim (take i (trim (mergeSource note))),
                         trim (drop (Suc i) (trim (mergeSource note)))))"
proof -
  let ?src = "trim (mergeSource note)"
  show ?thesis
  proof (cases "splitIndex ?src")
    case None
    then show ?thesis using regexMatch_trimmed[of ?src "mergeSource note"]
      by (simp add: extractMergeInfo_def)
  next
    case (Some i)
    note b = splitIndex_bounds[OF Some]
    then have ne: "?src \<noteq> []" by auto
    have "hd ?src \<in> set (take i ?src)" using b ne by (cases ?src; cases i) auto
    then have 1: "trim (take i ?src) \<noteq> []" using trim_ends[OF ne] by (auto simp: trim_eq_Nil)
    have r: "drop (Suc i) ?src \<noteq> []" using b by (simp add: isSplitPoint_def)
    then have "last (drop (Suc i) ?src) = last ?src" by (simp add: last_drop)
    moreover have "last (drop (Suc i) ?src) \<in> set (drop (Suc i) ?src)" by (rule last_in_set[OF r])
    ultimately have 2: "trim (drop (Suc i) ?src) \<noteq> []"
      using trim_ends[OF ne] by (auto simp: trim_eq_Nil)
    show ?thesis using regexMatch_trimmed[of ?src "mergeSource note"] Some 1 2
      by (simp add: extractMergeInfo_def trim_dropWhile Let_def)
  qed
qed

lemma isSplitPoint_singleLine:
  assumes "singleLine src"
  shows "isSplitPoint src i \<longleftrightarrow> isSeparator (src ! i) \<and> Suc i < length src"
proof -
  have "singleLine (take i src)" using assms unfolding singleLine_def by (meson in_set_takeD)
  moreover have "singleLine (dropWhile isWhiteSpace (drop (Suc i) src))"
    using assms unfolding singleLine_def by (meson in_set_dropD set_dropWhileD)
  ultimately show ?thesis by (auto simp: isSplitPoint_def)
qed

subsection \<open>The note selected, and the append to it\<close>

lemma filter_id_distinct:
  assumes "distinct (map note_id rows)" "x \<in> set rows"
  shows "filter (\<lambda>n. note_id n = note_id x) rows = [x]"
  using assms
proof (induction rows)
  case Nil
  then show ?case by simp
next
  case (Cons n rows)
  show ?case
  proof (cases "n = x")
    case True
    have "note_id x \<notin> note_id ` set rows" using Cons.prems(1) True by simp
    then have "\<forall>m \<in> set rows. note_id m \<noteq> note_id x" by (metis imageI)
    then have "filter (\<lambda>n. note_id n = note_id x) rows = []" by (simp add: filter_empty_conv)
    with True show ?thesis by simp
  next
    case False
    then have x: "x \<in> set rows" using Cons.prems(2) by simp
    then have "note_id n \<noteq> note_id x" using Cons.prems(1) by auto
    moreover have "filter (\<lambda>n. note_id n = note_id x) rows = [x]"
      using Cons.IH Cons.prems(1) x by simp
    ultimately show ?thesis by simp
  qed
qed

lemma filter_id_map:
  assumes "distinct (map note_id rows)" "x \<in> set rows" "\<And>n. note_id (f n) = note_id n"
  shows "filter (\<lambda>n. note_id n = note_id x) (map f rows) = [f x]"
proof -
  have "filter (\<lambda>n. note_id n = note_id x) (map f rows)
      = map f (filter (\<lambda>n. note_id n = note_id x) rows)"
    by (simp add: filter_map o_def assms(3))
  then show ?thesis by (simp add: filter_id_distinct[OF assms(1,2)])
qed

lemma notes_create_append_ok:
  assumes "extractMergeInfo d = Some (b, en)" "auth_user e = Some u" "\<not> db_error e NotesSelect"
    "existingNotes e u b (db_notes st) = Some (x # xs)"
    "distinct (map note_id (db_notes st))" "\<not> db_error e NotesUpdate"
  shows "notes_create e d st
     = Inr (x\<lparr>note_content := Some (newContent (baseContent (note_content x)) (entryMarkup (escapeHtml en))),
              note_updated_at := db_now e\<rparr>,
            st\<lparr>db_notes := notes_update_content e (note_id x)
                   (newContent (baseContent (note_content x)) (entryMarkup (escapeHtml en))) (db_notes st)\<rparr>)"
proof -
  let ?c = "newContent (baseContent (note_content x)) (entryMarkup (escapeHtml en))"
  let ?f = "\<lambda>n. if note_id n = note_id x then n\<lparr>note_content := Some ?c, note_updated_at := db_now e\<rparr> else n"
  have mem: "x \<in> set (db_notes st)" using existingNotes_Cons_mem[OF assms(4)] by simp
  have "filter (\<lambda>n. note_id n = note_id x) (map ?f (db_notes st)) = [?f x]"
    by (rule filter_id_map[OF assms(5) mem]) simp
  then have f: "filter (\<lambda>n. note_id n = note_id x) (notes_update_content e (note_id x) ?c (db_notes st))
      = [x\<lparr>note_content := Some ?c, note_updated_at := db_now e\<rparr>]"
    by (simp add: notes_update_content_def)
  show ?thesis
    using assms(1,2,3,4,6) f by (simp add: notes_create_def getUserId_def Let_def)
qed

lemma find_first:
  assumes "\<forall>n \<in> set pre. \<not> P n" "P x"
  shows "find P (pre @ x # post) = Some x"
  using assms by (induction pre) simp_all

lemma find_none: "(\<forall>n \<in> set rows. \<not> P n) \<Longrightarrow> find P rows = None"
  by (simp add: find_None_iff)

lemma local_existing_first:
  assumes "toArray rows = pre @ x # post"
    "\<forall>n \<in> set pre. toLowerCase e (trim (note_title n)) \<noteq> toLowerCase e b"
    "toLowerCase e (trim (note_title x)) = toLowerCase e b"
  shows "local_existing e b rows = Some x"
  unfolding local_existing_def assms(1)
  by (rule find_first) (use assms(2,3) in simp_all)

lemma local_existing_none:
  assumes "\<forall>n \<in> set rows. toLowerCase e (trim (note_title n)) \<noteq> toLowerCase e b"
  shows "local_existing e b rows = None"
  unfolding local_existing_def
  by (rule find_none) (use assms in \<open>simp add: toArray_def\<close>)

lemma find_id_map:
  assumes "distinct (map note_id rows)" "x \<in> set rows" "\<And>n. note_id (f n) = note_id n"
  shows "find (\<lambda>n. note_id n = note_id x) (map f rows) = Some (f x)"
proof -
  have "f x \<in> set (map f rows)" "note_id (f x) = note_id x" using assms(2,3) by simp_all
  then have "find (\<lambda>n. note_id n = note_id x) (map f rows) \<noteq> None"
    unfolding find_None_iff by blast
  then obtain r where r: "find (\<lambda>n. note_id n = note_id x) (map f rows) = Some r" by auto
  have "r = f x"
    by (rule find_map_distinct[OF r assms(1,2) refl assms(3)])
  with r show ?thesis by simp
qed

lemma local_notes_create_append_ok:
  assumes "extractMergeInfo d = Some (b, en)" "local_existing e b (db_notes st) = Some x"
    "distinct (map note_id (db_notes st))"
  shows "local_notes_create e d st
     = Inr (x\<lparr>note_content := Some (local_newContent (note_content x) (entryMarkup (escapeHtml en))),
              note_updated_at := now e\<rparr>,
            st\<lparr>db_notes := map (\<lambda>n. if note_id n = note_id x
              then n\<lparr>note_content := Some (local_newContent (note_content x) (entryMarkup (escapeHtml en))),
                     note_updated_at := now e\<rparr> else n) (db_notes st)\<rparr>)"
proof -
  let ?c = "local_newContent (note_content x) (entryMarkup (escapeHtml en))"
  let ?f = "\<lambda>n. if note_id n = note_id x then n\<lparr>note_content := Some ?c, note_updated_at := now e\<rparr> else n"
  have "find (\<lambda>n. note_id n = note_id x) (map ?f (db_notes st)) = Some (?f x)"
    by (rule find_id_map[OF assms(3) local_existing_mem[OF assms(2)]]) simp
  then show ?thesis
    using assms(1,2) by (simp add: local_notes_create_def Let_def)
qed

lemma existingNotes_first:
  assumes "0x2A \<notin> set b" "plainPattern (pg_lower e b)" "rows = pre @ x # post"
    "\<forall>n \<in> set pre. note_user_id n = u \<longrightarrow> pg_lower e (note_title n) \<noteq> pg_lower e b"
    "note_user_id x = u" "pg_lower e (note_title x) = pg_lower e b"
  shows "existingNotes e u b rows = Some [x]"
proof -
  have "filter (\<lambda>n. note_user_id n = u \<and> pg_lower e (note_title n) = pg_lower e b) pre = []"
    using assms(4) by (auto simp: filter_empty_conv)
  then show ?thesis
    unfolding existingNotes_plain[OF assms(1,2)] assms(3) using assms(5,6) by simp
qed

lemma existingNotes_none:
  assumes "0x2A \<notin> set b" "plainPattern (pg_lower e b)"
    "\<forall>n \<in> set rows. note_user_id n = u \<longrightarrow> pg_lower e (note_title n) \<noteq> pg_lower e b"
  shows "existingNotes e u b rows = Some []"
proof -
  have "filter (\<lambda>n. note_user_id n = u \<and> pg_lower e (note_title n) = pg_lower e b) rows = []"
    using assms(3) by (auto simp: filter_empty_conv)
  then show ?thesis unfolding existingNotes_plain[OF assms(1,2)] by simp
qed


subsection \<open>A capture whose photo was not stored\<close>








lemma notes_insert_ok:
  assumes "truthy (title d) \<or> content d \<noteq> None" "\<not> db_error e NotesInsert"
  shows "\<exists>r. notes_insert e u d st = Inr (r, st\<lparr>db_notes := db_notes st @ [r]\<rparr>)
     \<and> note_id r = record_uuid e \<and> note_user_id r = u \<and> note_content r = content d
     \<and> note_title r = (if truthy (title d) then the (title d) else take 50 (the (content d)))
     \<and> note_photo_url r = orNull (photoUrl d)"
  using assms by (auto simp: notes_insert_def Let_def substring0_def orNull_def)

section \<open>C1: the order of the start and the end of an event\<close>

text \<open>
  C1, as claimed, does not hold: no step of the capture compares the end of an event
  with its start. For the sample classifier, which answers an event from 15:00 to 14:00
  of the same day, the capture succeeds and the store holds that event.
\<close>

theorem C1_inverted_event_is_persisted:
  "success (handleSubmit env0 standupApp)
   \<and> map (\<lambda>r. (event_start_time r, event_end_time r)) (db_events (db (handleSubmit env0 standupApp)))
       = [(1709305200000, 1709301600000)]
   \<and> \<not> (1709301600000 :: int) > 1709305200000"
  by code_simp

text \<open>
  C1, amended: for every capture classified as an event whose start and end strings the
  \<open>Date\<close> parser reads as valid dates, the capture succeeds (given a signed-in user and
  an insert that works) and the event it persists has exactly the start and the end the
  classifier returned, in whatever order they are.
\<close>

theorem C1_event_times_persisted_as_classified:
  assumes "trim (input a) \<noteq> []" "\<not> loading a"
    "generateContent e (input a) = Some response"
    "JSON_parse e (cleanText (trim response)) = Some (JsonObject c)"
    "capture_type c = Some (js ''event'')" "capture_data c = Some d"
    "startTime d = Some (DateString s1)" "date_parse e s1 = Some s"
    "endTime d = Some (DateString t1)" "date_parse e t1 = Some t"
    "auth_user e = Some u" "\<not> db_error e EventsInsert"
  shows "success (handleSubmit e a)
     \<and> (\<exists>r \<in> set (db_events (db (handleSubmit e a))).
           event_id r = record_uuid e \<and> event_start_time r = s \<and> event_end_time r = t)"
proof -
  define d' where "d' = d\<lparr>startTime := Some (DateObject (Some s)), endTime := Some (DateObject (Some t))\<rparr>"
  define c' where "c' = c\<lparr>capture_data := Some d'\<rparr>"
  define a0 where "a0 = a\<lparr>loading := True, success := False, parsed := Some c'\<rparr>"
  have pc: "parseCapture e (input a) = Inr c'"
    unfolding c'_def d'_def by (rule parseCapture_event[OF assms(3-10)])
  have d'1: "startTime d' = Some (DateObject (Some s))" and d'2: "endTime d' = Some (DateObject (Some t))"
    by (simp_all add: d'_def)
  have c'1: "capture_type c' = Some (js ''event'')" and c'2: "capture_data c' = Some d'"
    using assms(5) by (simp_all add: c'_def)
  from events_create_valid[OF d'1 d'2 assms(11,12), of "db a0"]
  obtain r where r: "events_create e d' (db a0) = Inr (r, (db a0)\<lparr>db_events := db_events (db a0) @ [r]\<rparr>)"
     "event_id r = record_uuid e" "event_start_time r = s" "event_end_time r = t"
    by blast
  from handleConfirm_event[OF c'1 c'2 r(1)]
  have hc: "snd (handleConfirm e c' a0) = None"
     "map eventCore (db_events (db (fst (handleConfirm e c' a0))))
        = map eventCore (db_events (db a0)) @ [eventCore r]"
    by simp_all
  obtain a1 where a1: "handleConfirm e c' a0 = (a1, None)"
    using hc(1) by (cases "handleConfirm e c' a0") auto
  have hs: "handleSubmit e a = a1\<lparr>success := True, loading := False\<rparr>"
    using handleSubmit_ok[OF assms(1,2) pc] a1 unfolding a0_def by simp
  have "eventCore r \<in> set (map eventCore (db_events (db a1)))"
    using hc(2) a1 by simp
  then obtain r' where r': "r' \<in> set (db_events (db a1))" "eventCore r' = eventCore r" by auto
  from eventCore_fields[OF r'(2)] r(2-4)
  have "event_id r' = record_uuid e \<and> event_start_time r' = s \<and> event_end_time r' = t" by simp
  with r'(1) hs show ?thesis by auto
qed

text \<open>
  The amended C1 at the sample classifier, whose event ends an hour before it starts.
\<close>

theorem C1_event_times_witness:
  "success (handleSubmit env0 standupApp)
   \<and> (\<exists>r \<in> set (db_events (db (handleSubmit env0 standupApp))).
         event_id r = record_uuid env0 \<and> event_start_time r = 1709305200000
         \<and> event_end_time r = 1709301600000)"
proof -
  have h1: "trim (input standupApp) \<noteq> []" by code_simp
  have h2: "\<not> loading standupApp" by code_simp
  have h3: "generateContent env0 (input standupApp) = Some eventResponse" by code_simp
  have h4: "JSON_parse env0 (cleanText (trim eventResponse)) = Some (JsonObject standupCapture)"
    by code_simp
  have h5: "capture_type standupCapture = Some (js ''event'')"
    and h6: "capture_data standupCapture = Some standupData"
    by (simp_all add: standupCapture_def)
  have h7: "startTime standupData = Some (DateString (js ''2024-03-01T15:00:00Z''))"
    and h9: "endTime standupData = Some (DateString (js ''2024-03-01T14:00:00Z''))"
    by (simp_all add: standupData_def)
  have h8: "date_parse env0 (js ''2024-03-01T15:00:00Z'') = Some 1709305200000" by code_simp
  have h10: "date_parse env0 (js ''2024-03-01T14:00:00Z'') = Some 1709301600000" by code_simp
  have h11: "auth_user env0 = Some (js ''u1'')" by (simp add: env0_def)
  have h12: "\<not> db_error env0 EventsInsert" by (simp add: env0_def)
  show ?thesis
    by (rule C1_event_times_persisted_as_classified[OF h1 h2 h3 h4 h5 h6 h7 h8 h9 h10 h11 h12])
qed

section \<open>C2: when the classification fails\<close>




section \<open>C3: a calendar bridge without a token\<close>

text \<open>
  C3, as claimed, does not hold in its first part: without an access token the push
  does not return a signal, it throws.
\<close>

theorem C3_push_raises_without_token:
  "pushToGoogleCalendar env0 standupEvent = Inl (Error ''Not authenticated with Google'')
   \<and> provider_token env0 = None"
  by code_simp

text \<open>
  C3, amended: once the event is created locally, the capture of an event reports
  success and the store holds the event, whatever the push does (only the link to the
  external calendar and the update timestamp of a row can differ). Without an access
  token, the push and the delete throw \<open>Not authenticated with Google\<close>, the capture
  catches it, and the store is the old one plus the event, which has no external id.
\<close>

theorem C3_unauthenticated_push_is_tolerated:
  assumes "capture_type c = Some (js ''event'')" "capture_data c = Some d"
    "events_create e d (db a) = Inr (r, st1)"
  shows "snd (handleConfirm e c a) = None
     \<and> map eventCore (db_events (db (fst (handleConfirm e c a))))
         = map eventCore (db_events (db a)) @ [eventCore r]
     \<and> (\<not> truthy (provider_token e) \<longrightarrow>
          pushToGoogleCalendar e r = Inl (Error ''Not authenticated with Google'')
        \<and> deleteFromGoogleCalendar e g = Inl (Error ''Not authenticated with Google'')
        \<and> db (fst (handleConfirm e c a)) = (db a)\<lparr>db_events := db_events (db a) @ [r]\<rparr>
        \<and> event_google_event_id r = None)"
  using handleConfirm_event[OF assms] events_create_appends[OF assms(3)]
  by (auto simp: push_unauthenticated deleteFromGoogleCalendar_def googleCalendarRequest_def
        getGoogleAccessToken_def)

text \<open>
  The amended C3 for the sample user, who has no Google session.
\<close>

theorem C3_unauthenticated_push_witness:
  "snd (handleConfirm env0 standupParsed app0) = None
   \<and> pushToGoogleCalendar env0 standupEvent = Inl (Error ''Not authenticated with Google'')
   \<and> db (fst (handleConfirm env0 standupParsed app0)) = store0\<lparr>db_events := [standupEvent]\<rparr>
   \<and> event_google_event_id standupEvent = None"
proof -
  have h1: "capture_type standupParsed = Some (js ''event'')"
    and h2: "capture_data standupParsed = Some (standupData\<lparr>startTime := Some (DateObject (Some 1709305200000)),
                                       endTime := Some (DateObject (Some 1709301600000))\<rparr>)"
    by (simp_all add: standupParsed_def)
  have h3: "events_create env0 (standupData\<lparr>startTime := Some (DateObject (Some 1709305200000)),
                                       endTime := Some (DateObject (Some 1709301600000))\<rparr>) (db app0)
        = Inr (standupEvent, store0\<lparr>db_events := [standupEvent]\<rparr>)"
    by code_simp
  have h4: "\<not> truthy (provider_token env0)" by code_simp
  have h5: "db app0 = store0" "db_events store0 = []" by (simp_all add: app0_def store0_def)
  from C3_unauthenticated_push_is_tolerated[OF h1 h2 h3, of "js ''g-1''"] h4 h5
  show ?thesis by simp
qed

section \<open>C4: a photo whose upload fails\<close>


section \<open>C5: the lookup of the merge target\<close>

text \<open>
  C5, as claimed, does not hold. For the bucket \<open>to_do\<close> and a store with a note titled
  \<open>to-do\<close> and a note titled \<open>to_do\<close> between two spaces, neither title equals the bucket
  title in any case; yet \<open>SupabaseStorageService\<close> appends the entry to the first (the
  underscore of the pattern matches the hyphen) and \<open>LocalStorageService\<close> to the second
  (it trims the title), and neither creates a note.
\<close>

theorem C5_lookup_is_not_exact:
  "extractMergeInfo todoCapture = Some (js ''to_do'', js ''call Sam'')
   \<and> existingNotes env0 (js ''u1'') (js ''to_do'') [dashNote, paddedNote] = Some [dashNote]
   \<and> local_existing env0 (js ''to_do'') [dashNote, paddedNote] = Some paddedNote
   \<and> note_title dashNote = js ''to-do'' \<and> note_title paddedNote = js '' to_do ''
   \<and> asciiLowerCase (js ''to-do'') \<noteq> asciiLowerCase (js ''to_do'')
   \<and> asciiLowerCase (js '' to_do '') \<noteq> asciiLowerCase (js ''to_do'')
   \<and> (case notes_create env0 todoCapture (store0\<lparr>db_notes := [dashNote, paddedNote]\<rparr>) of
         Inl err \<Rightarrow> False
       | Inr (r, st) \<Rightarrow> note_id r = note_id dashNote \<and> length (db_notes st) = 2)
   \<and> (case local_notes_create env0 todoCapture (store0\<lparr>db_notes := [dashNote, paddedNote]\<rparr>) of
         Inl err \<Rightarrow> False
       | Inr (r, st) \<Rightarrow> note_id r = note_id paddedNote \<and> length (db_notes st) = 2)"
  by code_simp

text \<open>
  C5, amended. Two strings are equal up to case when the case mapping of the service
  (\<open>lower\<close> of PostgreSQL, \<open>toLowerCase\<close> of JavaScript) maps them to the same string.

  \<open>SupabaseStorageService\<close>, for a bucket title without \<open>*\<close> whose lower-case form has
  none of \<open>%\<close>, \<open>_\<close> and the backslash: the lookup selects the first note of the user, in
  the order in which the table is read, whose title equals the bucket title up to case;
  when there is none, a new note titled with the bucket title is created; when there is
  one, the entry is appended to it and no note is created.

  \<open>LocalStorageService\<close>, for every bucket title: when no note has a title that, trimmed,
  equals the bucket title up to case, a new note titled with the bucket title is
  created; otherwise the entry is appended to the first such note in the order of the
  identifiers, and no note is created.
\<close>

theorem C5_lookup_of_the_merge_target:
  assumes "extractMergeInfo d = Some (b, en)"
  shows
  "(auth_user e = Some u \<and> \<not> db_error e NotesSelect
      \<and> 0x2A \<notin> set b \<and> plainPattern (pg_lower e b) \<longrightarrow>
      existingNotes e u b (db_notes st)
        = Some (take 1 (filter (\<lambda>n. note_user_id n = u \<and> pg_lower e (note_title n) = pg_lower e b)
                          (db_notes st)))
      \<and> ((\<forall>n \<in> set (db_notes st). note_user_id n = u \<longrightarrow> pg_lower e (note_title n) \<noteq> pg_lower e b)
           \<and> \<not> db_error e NotesInsert \<longrightarrow>
           (\<exists>r. notes_create e d st = Inr (r, st\<lparr>db_notes := db_notes st @ [r]\<rparr>)
                \<and> note_title r = b \<and> note_user_id r = u))
      \<and> (db_notes st = pre @ x # post
           \<and> (\<forall>n \<in> set pre. note_user_id n = u \<longrightarrow> pg_lower e (note_title n) \<noteq> pg_lower e b)
           \<and> note_user_id x = u \<and> pg_lower e (note_title x) = pg_lower e b
           \<and> distinct (map note_id (db_notes st)) \<and> \<not> db_error e NotesUpdate \<longrightarrow>
           (\<exists>r st'. notes_create e d st = Inr (r, st')
                \<and> r = x\<lparr>note_content :=
                           Some (newContent (baseContent (note_content x)) (entryMarkup (escapeHtml en))),
                         note_updated_at := db_now e\<rparr>
                \<and> map note_id (db_notes st') = map note_id (db_notes st))))
   \<and> ((\<forall>n \<in> set (db_notes st). toLowerCase e (trim (note_title n)) \<noteq> toLowerCase e b) \<longrightarrow>
        (\<exists>r. local_notes_create e d st = Inr (r, st\<lparr>db_notes := db_notes st @ [r]\<rparr>)
             \<and> note_title r = b))
   \<and> (toArray (db_notes st) = pre' @ y # post'
        \<and> (\<forall>n \<in> set pre'. toLowerCase e (trim (note_title n)) \<noteq> toLowerCase e b)
        \<and> toLowerCase e (trim (note_title y)) = toLowerCase e b
        \<and> distinct (map note_id (db_notes st)) \<longrightarrow>
        (\<exists>r st'. local_notes_create e d st = Inr (r, st')
             \<and> r = y\<lparr>note_content :=
                        Some (local_newContent (note_content y) (entryMarkup (escapeHtml en))),
                      note_updated_at := now e\<rparr>
             \<and> map note_id (db_notes st') = map note_id (db_notes st)))"
proof (intro conjI impI)
  assume h: "auth_user e = Some u \<and> \<not> db_error e NotesSelect
      \<and> 0x2A \<notin> set b \<and> plainPattern (pg_lower e b)"
  then show "existingNotes e u b (db_notes st)
        = Some (take 1 (filter (\<lambda>n. note_user_id n = u \<and> pg_lower e (note_title n) = pg_lower e b)
                          (db_notes st)))"
    using existingNotes_plain by blast
next
  assume h: "auth_user e = Some u \<and> \<not> db_error e NotesSelect
      \<and> 0x2A \<notin> set b \<and> plainPattern (pg_lower e b)"
    and n: "(\<forall>n \<in> set (db_notes st). note_user_id n = u \<longrightarrow> pg_lower e (note_title n) \<noteq> pg_lower e b)
           \<and> \<not> db_error e NotesInsert"
  let ?d = "d\<lparr>title := Some b, content := Some (entryMarkup (escapeHtml en))\<rparr>"
  have ex: "existingNotes e u b (db_notes st) = Some []"
    using existingNotes_none[of b e "db_notes st" u] h n by blast
  have b: "b \<noteq> []" using assms extractMergeInfo_nonempty by blast
  have t: "truthy (title ?d) \<or> content ?d \<noteq> None" using b by (simp add: truthy_def)
  from notes_insert_ok[OF t, of e u st] n b
  obtain r where "notes_insert e u ?d st = Inr (r, st\<lparr>db_notes := db_notes st @ [r]\<rparr>)"
      "note_title r = b" "note_user_id r = u"
    by (auto simp: truthy_def)
  then show "\<exists>r. notes_create e d st = Inr (r, st\<lparr>db_notes := db_notes st @ [r]\<rparr>)
                \<and> note_title r = b \<and> note_user_id r = u"
    using notes_create_new_bucket[OF assms, of e u st] h ex by auto
next
  assume h: "auth_user e = Some u \<and> \<not> db_error e NotesSelect
      \<and> 0x2A \<notin> set b \<and> plainPattern (pg_lower e b)"
    and n: "db_notes st = pre @ x # post
           \<and> (\<forall>n \<in> set pre. note_user_id n = u \<longrightarrow> pg_lower e (note_title n) \<noteq> pg_lower e b)
           \<and> note_user_id x = u \<and> pg_lower e (note_title x) = pg_lower e b
           \<and> distinct (map note_id (db_notes st)) \<and> \<not> db_error e NotesUpdate"
  have ex: "existingNotes e u b (db_notes st) = Some [x]"
    using existingNotes_first[of b e "db_notes st" pre x post u] h n by blast
  have "notes_create e d st
     = Inr (x\<lparr>note_content := Some (newContent (baseContent (note_content x)) (entryMarkup (escapeHtml en))),
              note_updated_at := db_now e\<rparr>,
            st\<lparr>db_notes := notes_update_content e (note_id x)
                   (newContent (baseContent (note_content x)) (entryMarkup (escapeHtml en))) (db_notes st)\<rparr>)"
    using notes_create_append_ok[OF assms _ _ ex, of ] h n by blast
  moreover have "map note_id (notes_update_content e (note_id x)
                   (newContent (baseContent (note_content x)) (entryMarkup (escapeHtml en))) (db_notes st))
        = map note_id (db_notes st)"
    by (simp add: notes_update_content_def o_def)
  ultimately show "\<exists>r st'. notes_create e d st = Inr (r, st')
                \<and> r = x\<lparr>note_content :=
                           Some (newContent (baseContent (note_content x)) (entryMarkup (escapeHtml en))),
                         note_updated_at := db_now e\<rparr>
                \<and> map note_id (db_notes st') = map note_id (db_notes st)"
    by simp
next
  assume n: "\<forall>n \<in> set (db_notes st). toLowerCase e (trim (note_title n)) \<noteq> toLowerCase e b"
  let ?d = "d\<lparr>title := Some b, content := Some (entryMarkup (escapeHtml en))\<rparr>"
  have ex: "local_existing e b (db_notes st) = None" by (rule local_existing_none[OF n])
  have b: "b \<noteq> []" using assms extractMergeInfo_nonempty by blast
  have t: "title ?d = Some b" by simp
  from local_notes_insert_titled[OF t b, of e st]
  obtain r where "local_notes_insert e ?d st = Inr (r, st\<lparr>db_notes := db_notes st @ [r]\<rparr>)" "note_title r = b"
    by blast
  moreover have "local_notes_create e d st = local_notes_insert e ?d st"
    using assms ex by (simp add: local_notes_create_def Let_def)
  ultimately show "\<exists>r. local_notes_create e d st = Inr (r, st\<lparr>db_notes := db_notes st @ [r]\<rparr>)
                \<and> note_title r = b" by auto
next
  assume n: "toArray (db_notes st) = pre' @ y # post'
        \<and> (\<forall>n \<in> set pre'. toLowerCase e (trim (note_title n)) \<noteq> toLowerCase e b)
        \<and> toLowerCase e (trim (note_title y)) = toLowerCase e b
        \<and> distinct (map note_id (db_notes st))"
  have ex: "local_existing e b (db_notes st) = Some y"
    using local_existing_first[of "db_notes st" pre' y post' e b] n by blast
  have d: "distinct (map note_id (db_notes st))" using n by blast
  have "map note_id (map (\<lambda>n. if note_id n = note_id y
              then n\<lparr>note_content := Some (local_newContent (note_content y) (entryMarkup (escapeHtml en))),
                     note_updated_at := now e\<rparr> else n) (db_notes st))
        = map note_id (db_notes st)"
    by (simp add: o_def)
  then show "\<exists>r st'. local_notes_create e d st = Inr (r, st')
             \<and> r = y\<lparr>note_content :=
                        Some (local_newContent (note_content y) (entryMarkup (escapeHtml en))),
                      note_updated_at := now e\<rparr>
             \<and> map note_id (db_notes st') = map note_id (db_notes st)"
    unfolding local_notes_create_append_ok[OF assms ex d] by simp
qed

text \<open>
  The amended C5 for the bucket \<open>groceries\<close>, in a store without and in a store with a
  note titled \<open>Groceries\<close>, and for the bucket \<open>to_do\<close> in \<open>LocalStorageService\<close>, whose
  note is the second by its identifier.
\<close>

theorem C5_lookup_witness:
  "existingNotes env0 (js ''u1'') (js ''groceries'') (db_notes mixedStore) = Some [groceriesNote]
   \<and> (\<exists>r. notes_create env0 milkCapture todoStore = Inr (r, todoStore\<lparr>db_notes := db_notes todoStore @ [r]\<rparr>)
          \<and> note_title r = js ''groceries'')
   \<and> (\<exists>st'. notes_create env0 milkCapture mixedStore = Inr (groceriesAppended, st')
          \<and> map note_id (db_notes st') = [js ''n2'', js ''n1''])
   \<and> (\<exists>r. local_notes_create env0 milkCapture todoStore
              = Inr (r, todoStore\<lparr>db_notes := db_notes todoStore @ [r]\<rparr>)
          \<and> note_title r = js ''groceries'')
   \<and> (\<exists>r st'. local_notes_create env0 todoCapture mixedStore = Inr (r, st')
          \<and> note_id r = js ''n2'' \<and> map note_id (db_notes st') = [js ''n2'', js ''n1''])"
proof -
  have hm: "extractMergeInfo milkCapture = Some (js ''groceries'', js ''milk & <b>honey</b>'')"
    by code_simp
  have ht: "extractMergeInfo todoCapture = Some (js ''to_do'', js ''call Sam'')"
    by code_simp
  have s: "auth_user env0 = Some (js ''u1'') \<and> \<not> db_error env0 NotesSelect
      \<and> 0x2A \<notin> set (js ''groceries'') \<and> plainPattern (pg_lower env0 (js ''groceries''))"
    by code_simp
  have f: "take 1 (filter (\<lambda>n. note_user_id n = js ''u1''
              \<and> pg_lower env0 (note_title n) = pg_lower env0 (js ''groceries'')) (db_notes mixedStore))
            = [groceriesNote]" by code_simp
  have n1: "(\<forall>n \<in> set (db_notes todoStore). note_user_id n = js ''u1''
                \<longrightarrow> pg_lower env0 (note_title n) \<noteq> pg_lower env0 (js ''groceries''))
           \<and> \<not> db_error env0 NotesInsert"
    by code_simp
  have n2: "db_notes mixedStore = [paddedNote] @ groceriesNote # []
           \<and> (\<forall>n \<in> set [paddedNote]. note_user_id n = js ''u1''
                \<longrightarrow> pg_lower env0 (note_title n) \<noteq> pg_lower env0 (js ''groceries''))
           \<and> note_user_id groceriesNote = js ''u1''
           \<and> pg_lower env0 (note_title groceriesNote) = pg_lower env0 (js ''groceries'')
           \<and> distinct (map note_id (db_notes mixedStore)) \<and> \<not> db_error env0 NotesUpdate"
    by code_simp
  have a2: "groceriesNote\<lparr>note_content :=
                Some (newContent (baseContent (note_content groceriesNote))
                        (entryMarkup (escapeHtml (js ''milk & <b>honey</b>'')))),
              note_updated_at := db_now env0\<rparr> = groceriesAppended
           \<and> map note_id (db_notes mixedStore) = [js ''n2'', js ''n1'']"
    by code_simp
  have n3: "\<forall>n \<in> set (db_notes todoStore).
               toLowerCase env0 (trim (note_title n)) \<noteq> toLowerCase env0 (js ''groceries'')"
    by code_simp
  have n4: "toArray (db_notes mixedStore) = [groceriesNote] @ paddedNote # []
        \<and> (\<forall>n \<in> set [groceriesNote]. toLowerCase env0 (trim (note_title n)) \<noteq> toLowerCase env0 (js ''to_do''))
        \<and> toLowerCase env0 (trim (note_title paddedNote)) = toLowerCase env0 (js ''to_do'')
        \<and> distinct (map note_id (db_notes mixedStore))"
    by code_simp
  have a4: "note_id (paddedNote\<lparr>note_content :=
                Some (local_newContent (note_content paddedNote) (entryMarkup (escapeHtml (js ''call Sam'')))),
              note_updated_at := now env0\<rparr>) = js ''n2''"
    by code_simp
  note t1 = C5_lookup_of_the_merge_target[OF hm, where e = env0 and u = "js ''u1''" and st = todoStore]
  note t2 = C5_lookup_of_the_merge_target[OF hm, where e = env0 and u = "js ''u1''" and st = mixedStore
      and pre = "[paddedNote]" and x = groceriesNote and post = "[]"]
  note t3 = C5_lookup_of_the_merge_target[OF ht, where e = env0 and st = mixedStore
      and pre' = "[groceriesNote]" and y = paddedNote and post' = "[]"]
  from t2 s f have 1: "existingNotes env0 (js ''u1'') (js ''groceries'') (db_notes mixedStore) = Some [groceriesNote]"
    by simp
  from t1 s n1 have 2: "\<exists>r. notes_create env0 milkCapture todoStore
              = Inr (r, todoStore\<lparr>db_notes := db_notes todoStore @ [r]\<rparr>)
          \<and> note_title r = js ''groceries''" by blast
  from t2 s n2 have "\<exists>r st'. notes_create env0 milkCapture mixedStore = Inr (r, st')
                \<and> r = groceriesNote\<lparr>note_content :=
                           Some (newContent (baseContent (note_content groceriesNote))
                                   (entryMarkup (escapeHtml (js ''milk & <b>honey</b>'')))),
                         note_updated_at := db_now env0\<rparr>
                \<and> map note_id (db_notes st') = map note_id (db_notes mixedStore)"
    by blast
  with a2 have 3: "\<exists>st'. notes_create env0 milkCapture mixedStore = Inr (groceriesAppended, st')
          \<and> map note_id (db_notes st') = [js ''n2'', js ''n1'']"
    by auto
  from t1 n3 have 4: "\<exists>r. local_notes_create env0 milkCapture todoStore
              = Inr (r, todoStore\<lparr>db_notes := db_notes todoStore @ [r]\<rparr>)
          \<and> note_title r = js ''groceries''" by blast
  from t3 n4 have "\<exists>r st'. local_notes_create env0 todoCapture mixedStore = Inr (r, st')
             \<and> r = paddedNote\<lparr>note_content :=
                        Some (local_newContent (note_content paddedNote) (entryMarkup (escapeHtml (js ''call Sam'')))),
                      note_updated_at := now env0\<rparr>
             \<and> map note_id (db_notes st') = map note_id (db_notes mixedStore)"
    by blast
  with a4 a2 have 5: "\<exists>r st'. local_notes_create env0 todoCapture mixedStore = Inr (r, st')
          \<and> note_id r = js ''n2'' \<and> map note_id (db_notes st') = [js ''n2'', js ''n1'']"
    by auto
  from 1 2 3 4 5 show ?thesis by blast
qed

section \<open>C6: what an append writes\<close>

text \<open>
  C6, as claimed, does not hold: a prior content that is blank is not kept. Appending
  to a note whose content is one space leaves the list item alone.
\<close>

theorem C6_blank_content_is_dropped:
  "(case notes_create env0 milkCapture (store0\<lparr>db_notes := [blankNote]\<rparr>) of
      Inl err \<Rightarrow> False
    | Inr (r, st) \<Rightarrow> note_content r = Some milkItem \<and> db_notes st = [r])
   \<and> note_content blankNote = Some (js '' '')
   \<and> take (length (js '' '')) milkItem \<noteq> js '' ''"
  by code_simp

text \<open>
  C6, amended: when a capture is appended to a note with the content \<open>prior\<close>, the new
  content is the list item alone if \<open>prior\<close> is blank, and otherwise \<open>prior\<close>, then a line
  break unless the trimmed \<open>prior\<close> ends in one, then the list item; so a prior content
  that is not blank is a prefix of the new one. The list item is the entry between the
  opening of the fragment and its end, with every ampersand and angle bracket replaced by
  its entity; no angle bracket is left in the entry.
\<close>

theorem C6_append_keeps_prior_content:
  assumes "extractMergeInfo d = Some (b, en)" "auth_user e = Some u"
    "existingNotes e u b (db_notes st) = Some (x # xs)" "note_content x = Some prior"
    "notes_create e d st = Inr (r, st')"
  shows "note_content r =
           Some (if trim prior = [] then entryMarkup (concat (map escapeChar en))
                 else prior @ (if endsWith (trim prior) (js ''<br />'') then [] else js ''<br />'')
                        @ entryMarkup (concat (map escapeChar en)))
       \<and> (trim prior \<noteq> [] \<longrightarrow> take (length prior) (the (note_content r)) = prior)
       \<and> (\<forall>c \<in> set (concat (map escapeChar en)). c \<noteq> 0x3C \<and> c \<noteq> 0x3E)
       \<and> entryMarkup (concat (map escapeChar en))
           = js ''<div>'' @ [0xE2, 0x20AC, 0xA2, 0x20] @ concat (map escapeChar en) @ js ''</div>''"
proof -
  have row: "note_content r = Some (newContent prior (entryMarkup (escapeHtml en)))"
    by (subst notes_create_append_row[OF assms(1,2,3,5)]) (simp add: assms(4) baseContent_def)
  have esc: "escapeHtml en = concat (map escapeChar en)" by (rule escapeHtml_chars)
  have 1: "note_content r =
           Some (if trim prior = [] then entryMarkup (concat (map escapeChar en))
                 else prior @ (if endsWith (trim prior) (js ''<br />'') then [] else js ''<br />'')
                        @ entryMarkup (concat (map escapeChar en)))"
    unfolding row esc by (simp add: newContent_def)
  have 2: "trim prior \<noteq> [] \<longrightarrow> take (length prior) (the (note_content r)) = prior"
    unfolding 1 by simp
  have 3: "\<forall>c \<in> set (concat (map escapeChar en)). c \<noteq> 0x3C \<and> c \<noteq> 0x3E"
    using escapeHtml_no_angle[of _ en] unfolding esc by blast
  have 4: "entryMarkup (concat (map escapeChar en))
           = js ''<div>'' @ [0xE2, 0x20AC, 0xA2, 0x20] @ concat (map escapeChar en) @ js ''</div>''"
    by (simp add: entryMarkup_def)
  from 1 2 3 4 show ?thesis by blast
qed

text \<open>
  The amended C6 for an entry with an ampersand and a tag, appended to a list of one item.
\<close>

theorem C6_append_witness:
  "note_content groceriesAppended = Some (js ''<div>eggs</div>'' @ js ''<br />'' @ milkItem)
   \<and> take (length (js ''<div>eggs</div>'')) (the (note_content groceriesAppended)) = js ''<div>eggs</div>''"
proof -
  note g = groceries_append
  have t: "trim (js ''<div>eggs</div>'') \<noteq> []" by code_simp
  have m: "entryMarkup (concat (map escapeChar (js ''milk & <b>honey</b>''))) = milkItem" by code_simp
  have n: "\<not> endsWith (trim (js ''<div>eggs</div>'')) (js ''<br />'')" by code_simp
  from C6_append_keeps_prior_content[OF conjunct1[OF g] conjunct1[OF conjunct2[OF g]]
      conjunct1[OF conjunct2[OF conjunct2[OF g]]] conjunct1[OF conjunct2[OF conjunct2[OF conjunct2[OF g]]]]
      conjunct2[OF conjunct2[OF conjunct2[OF conjunct2[OF g]]]]] t m n
  show ?thesis by simp
qed

section \<open>C7: the merge decision\<close>

text \<open>
  C7, as claimed, does not hold: the first colon or hyphen is not always where the
  source is split. In \<open>- milk: 2 litres\<close> the hyphen comes first, and splitting there
  leaves an empty bucket, so no merge; the regular expression wants a character before
  the separator and splits at the colon.
\<close>

theorem C7_first_separator_does_not_always_split:
  "extractMergeInfo listItem = Some (js ''- milk'', js ''2 litres'')
   \<and> spec_extractMergeInfo listItem = None"
  by code_simp

text \<open>
  C7, amended: the source is the title, or the content when the title is absent or
  empty, trimmed. It is split at the first index, from 1 on, that holds a colon or a hyphen
  with no line terminator before it and, after it, a rest that is not empty and has no
  line terminator once its leading white space is dropped; the bucket and the entry are
  the two sides, trimmed. In a source of one line that is the first colon or hyphen
  after the first character, if something follows it. When there is no such index,
  \<open>notes.create\<close> adds a new note with the content as it was given.
\<close>

theorem C7_merge_decision:
  "(title noteData = Some t \<and> t \<noteq> [] \<longrightarrow> mergeSource noteData = t)
   \<and> (\<not> truthy (title noteData) \<and> content noteData = Some c \<longrightarrow> mergeSource noteData = c)
   \<and> extractMergeInfo noteData =
       (case splitIndex (trim (mergeSource noteData)) of
          None \<Rightarrow> None
        | Some i \<Rightarrow> Some (trim (take i (trim (mergeSource noteData))),
                           trim (drop (Suc i) (trim (mergeSource noteData)))))
   \<and> (singleLine (trim (mergeSource noteData)) \<longrightarrow>
        splitIndex (trim (mergeSource noteData))
          = find (\<lambda>i. isSeparator (trim (mergeSource noteData) ! i) \<and> Suc i < length (trim (mergeSource noteData)))
              [1 ..< length (trim (mergeSource noteData))])
   \<and> (extractMergeInfo noteData = None \<and> auth_user e = Some u \<and> notes_create e noteData st = Inr (r, st')
        \<longrightarrow> st' = st\<lparr>db_notes := db_notes st @ [r]\<rparr> \<and> note_content r = content noteData)"
proof -
  have 1: "title noteData = Some t \<and> t \<noteq> [] \<longrightarrow> mergeSource noteData = t"
    by (simp add: mergeSource_def truthy_def)
  have 2: "\<not> truthy (title noteData) \<and> content noteData = Some c \<longrightarrow> mergeSource noteData = c"
    by (auto simp: mergeSource_def truthy_def)
  have 4: "singleLine (trim (mergeSource noteData)) \<longrightarrow>
        splitIndex (trim (mergeSource noteData))
          = find (\<lambda>i. isSeparator (trim (mergeSource noteData) ! i) \<and> Suc i < length (trim (mergeSource noteData)))
              [1 ..< length (trim (mergeSource noteData))]"
    unfolding splitIndex_def using isSplitPoint_singleLine by (auto intro: find_cong)
  have 5: "extractMergeInfo noteData = None \<and> auth_user e = Some u \<and> notes_create e noteData st = Inr (r, st')
        \<longrightarrow> st' = st\<lparr>db_notes := db_notes st @ [r]\<rparr> \<and> note_content r = content noteData"
    using notes_create_no_merge[of noteData e u st] notes_insert_result[of e u noteData st r st'] by auto
  from 1 2 extractMergeInfo_split[of noteData] 4 5 show ?thesis by blast
qed

text \<open>
  The amended C7 for the list item above and for a note of one sentence.
\<close>

theorem C7_merge_decision_witness:
  "mergeSource listItem = js ''- milk: 2 litres''
   \<and> mergeSource plainNote = js ''The wifi password at the office is hunter2, ask Sam for the guest one''
   \<and> extractMergeInfo listItem = Some (js ''- milk'', js ''2 litres'')
   \<and> splitIndex (trim (mergeSource listItem)) = Some 6
   \<and> note_content plainRow = content plainNote"
proof -
  have a: "title listItem = Some (js ''- milk: 2 litres'') \<and> js ''- milk: 2 litres'' \<noteq> []" by code_simp
  have b: "\<not> truthy (title plainNote)
      \<and> content plainNote = Some (js ''The wifi password at the office is hunter2, ask Sam for the guest one'')"
    by code_simp
  have c: "splitIndex (trim (js ''- milk: 2 litres'')) = Some 6
      \<and> trim (take 6 (trim (js ''- milk: 2 litres''))) = js ''- milk''
      \<and> trim (drop (Suc 6) (trim (js ''- milk: 2 litres''))) = js ''2 litres''" by code_simp
  have d: "singleLine (trim (js ''- milk: 2 litres''))" by code_simp
  have f: "find (\<lambda>i. isSeparator (trim (js ''- milk: 2 litres'') ! i) \<and> Suc i < length (trim (js ''- milk: 2 litres'')))
              [1 ..< length (trim (js ''- milk: 2 litres''))] = Some 6" by code_simp
  have g: "extractMergeInfo plainNote = None \<and> auth_user env0 = Some (js ''u1'')" by code_simp
  note t1 = C7_merge_decision[where noteData = listItem and t = "js ''- milk: 2 litres''"]
  note t2 = C7_merge_decision[where noteData = plainNote
      and c = "js ''The wifi password at the office is hunter2, ask Sam for the guest one''"
      and e = env0 and u = "js ''u1''" and st = store0 and r = plainRow
      and st' = "store0\<lparr>db_notes := [plainRow]\<rparr>"]
  from t1 a have 1: "mergeSource listItem = js ''- milk: 2 litres''" by blast
  from t2 b have 2: "mergeSource plainNote = js ''The wifi password at the office is hunter2, ask Sam for the guest one''"
    by blast
  from t1 1 c have 3: "extractMergeInfo listItem = Some (js ''- milk'', js ''2 litres'')" by simp
  from t1 1 d f have 4: "splitIndex (trim (mergeSource listItem)) = Some 6" by simp
  from t2 g plainNote_created have 5: "note_content plainRow = content plainNote"
    by blast
  from 1 2 3 4 5 show ?thesis by blast
qed

section \<open>C8: the title of a note without a title\<close>

text \<open>
  C8, as claimed, does not hold: a content of the form bucket, colon, entry is a merge,
  and the note created for a new bucket is titled with the bucket.
\<close>

theorem C8_bucket_title_replaces_default:
  "(case notes_create env0 (noData\<lparr>content := Some (js ''Groceries: milk'')\<rparr>) store0 of
      Inl err \<Rightarrow> False
    | Inr (r, st) \<Rightarrow> note_title r = js ''Groceries''
        \<and> note_title r \<noteq> take 50 (js ''Groceries: milk'') \<and> db_notes st = [r])"
  by code_simp

text \<open>
  C8, amended: for a note without a title (or with an empty one), when the content
  does not match the bucket pattern the note created has the first 50 code units of the
  content as its title and the content as it was given; when the content matches and no
  note is selected as the bucket, the note created has the bucket as its title and the
  escaped entry in its list item as its content.
\<close>

theorem C8_default_title:
  assumes "\<not> truthy (title d)" "content d = Some c"
    "auth_user e = Some u" "\<not> db_error e NotesInsert"
  shows "(extractMergeInfo d = None \<longrightarrow>
            (\<exists>r. notes_create e d st = Inr (r, st\<lparr>db_notes := db_notes st @ [r]\<rparr>)
                  \<and> note_title r = take 50 c \<and> note_content r = Some c))
       \<and> (\<forall>b en. extractMergeInfo d = Some (b, en) \<and> \<not> db_error e NotesSelect
                   \<and> existingNotes e u b (db_notes st) = Some [] \<longrightarrow>
            (\<exists>r. notes_create e d st = Inr (r, st\<lparr>db_notes := db_notes st @ [r]\<rparr>)
                  \<and> note_title r = b
                  \<and> note_content r = Some (entryMarkup (escapeHtml en))))"
proof (intro conjI allI impI)
  assume "extractMergeInfo d = None"
  then show "\<exists>r. notes_create e d st = Inr (r, st\<lparr>db_notes := db_notes st @ [r]\<rparr>)
                  \<and> note_title r = take 50 c \<and> note_content r = Some c"
    using notes_create_no_merge[of d e u st] notes_insert_untitled[OF assms(1,2,4), of u st] assms(3)
    by auto
next
  fix b en
  assume h: "extractMergeInfo d = Some (b, en) \<and> \<not> db_error e NotesSelect
                   \<and> existingNotes e u b (db_notes st) = Some []"
  let ?d = "d\<lparr>title := Some b, content := Some (entryMarkup (escapeHtml en))\<rparr>"
  have "b \<noteq> []" using h extractMergeInfo_nonempty by blast
  then obtain r where "notes_insert e u ?d st = Inr (r, st\<lparr>db_notes := db_notes st @ [r]\<rparr>)"
      "note_title r = b" "note_content r = Some (entryMarkup (escapeHtml en))"
    using notes_insert_titled[of ?d b e u st] assms(4) by auto
  then show "\<exists>r. notes_create e d st = Inr (r, st\<lparr>db_notes := db_notes st @ [r]\<rparr>) \<and> note_title r = b
                  \<and> note_content r = Some (entryMarkup (escapeHtml en))"
    using notes_create_new_bucket[of d b en e u st] h assms(3) by auto
qed

text \<open>
  The amended C8 for a sentence of more than 50 characters and for a first grocery.
\<close>

theorem C8_default_title_witness:
  "(\<exists>r. notes_create env0 plainNote store0 = Inr (r, store0\<lparr>db_notes := db_notes store0 @ [r]\<rparr>)
        \<and> note_title r = js ''The wifi password at the office is hunter2, ask Sa'')
   \<and> (\<exists>r. notes_create env0 (noData\<lparr>content := Some (js ''Groceries: milk'')\<rparr>) store0
              = Inr (r, store0\<lparr>db_notes := db_notes store0 @ [r]\<rparr>)
        \<and> note_title r = js ''Groceries''
        \<and> note_content r = Some (entryMarkup (escapeHtml (js ''milk''))))"
proof -
  have h1: "\<not> truthy (title plainNote)" by code_simp
  have h2: "content plainNote = Some (js ''The wifi password at the office is hunter2, ask Sam for the guest one'')"
    by (simp add: plainNote_def)
  have h3: "auth_user env0 = Some (js ''u1'')" by (simp add: env0_def)
  have h4: "\<not> db_error env0 NotesInsert" by (simp add: env0_def)
  have h5: "extractMergeInfo plainNote = None" by code_simp
  have t: "take 50 (js ''The wifi password at the office is hunter2, ask Sam for the guest one'')
      = js ''The wifi password at the office is hunter2, ask Sa''" by code_simp
  have g1: "\<not> truthy (title (noData\<lparr>content := Some (js ''Groceries: milk'')\<rparr>))" by code_simp
  have g2: "content (noData\<lparr>content := Some (js ''Groceries: milk'')\<rparr>) = Some (js ''Groceries: milk'')"
    by simp
  have g5: "extractMergeInfo (noData\<lparr>content := Some (js ''Groceries: milk'')\<rparr>) = Some (js ''Groceries'', js ''milk'')
     \<and> \<not> db_error env0 NotesSelect \<and> existingNotes env0 (js ''u1'') (js ''Groceries'') (db_notes store0) = Some []"
    by code_simp
  from C8_default_title[OF h1 h2 h3 h4, of store0] h5 t
  have 1: "\<exists>r. notes_create env0 plainNote store0 = Inr (r, store0\<lparr>db_notes := db_notes store0 @ [r]\<rparr>)
        \<and> note_title r = js ''The wifi password at the office is hunter2, ask Sa''"
    by auto
  from C8_default_title[OF g1 g2 h3 h4, of store0] g5
  have 2: "\<exists>r. notes_create env0 (noData\<lparr>content := Some (js ''Groceries: milk'')\<rparr>) store0
              = Inr (r, store0\<lparr>db_notes := db_notes store0 @ [r]\<rparr>)
        \<and> note_title r = js ''Groceries''
        \<and> note_content r = Some (entryMarkup (escapeHtml (js ''milk'')))"
    by blast
  from 1 2 show ?thesis by blast
qed

section \<open>C9: the frame of an append\<close>

text \<open>
  C9: an append, in \<open>SupabaseStorageService\<close> and, for a table with distinct
  identifiers, in \<open>LocalStorageService\<close>, changes the content and the update timestamp
  of the selected note and nothing else: the note returned agrees with the selected one
  on identifier, owner, title, tags, pinned flag, photo and creation timestamp, every
  other row of every table is as it was, and no row is added.
\<close>

theorem C9_append_changes_only_the_content:
  "(extractMergeInfo d = Some (b, en) \<and> auth_user e = Some u
      \<and> existingNotes e u b (db_notes st) = Some (x # xs) \<and> notes_create e d st = Inr (r, st')
    \<longrightarrow> appendFrame x st st' \<and> onlyContentChanged x r \<and> x \<in> set (db_notes st)
        \<and> r \<in> set (db_notes st') \<and> note_updated_at r = db_now e)
   \<and> (extractMergeInfo d = Some (b, en) \<and> local_existing e b (db_notes st) = Some x
      \<and> distinct (map note_id (db_notes st)) \<and> local_notes_create e d st = Inr (r, st')
    \<longrightarrow> appendFrame x st st' \<and> onlyContentChanged x r \<and> x \<in> set (db_notes st)
        \<and> r \<in> set (db_notes st') \<and> note_updated_at r = now e)"
proof (rule conjI; rule impI)
  assume h: "extractMergeInfo d = Some (b, en) \<and> auth_user e = Some u
      \<and> existingNotes e u b (db_notes st) = Some (x # xs) \<and> notes_create e d st = Inr (r, st')"
  then have h1: "extractMergeInfo d = Some (b, en)" and h2: "auth_user e = Some u"
    and h3: "existingNotes e u b (db_notes st) = Some (x # xs)" and h4: "notes_create e d st = Inr (r, st')"
    by simp_all
  note nc = notes_create_append[OF h1 h2 h3 h4]
  note row = notes_create_append_row[OF h1 h2 h3 h4]
  have mem: "x \<in> set (db_notes st)" using existingNotes_Cons_mem[OF h3] by simp
  have fr: "appendFrame x st st'"
    using notes_update_content_frame[where x = x and st = st and e = e
        and c = "newContent (baseContent (note_content x)) (entryMarkup (escapeHtml en))"]
      conjunct1[OF nc] by (simp only:)
  have "r \<in> set (filter (\<lambda>n. note_id n = note_id x) (db_notes st'))"
    by (subst conjunct2[OF nc]) simp
  then have rm: "r \<in> set (db_notes st')" by simp
  have oc: "onlyContentChanged x r" by (subst row) (simp add: onlyContentChanged_def)
  have up: "note_updated_at r = db_now e" by (subst row) simp
  from fr oc mem rm up
  show "appendFrame x st st' \<and> onlyContentChanged x r \<and> x \<in> set (db_notes st)
        \<and> r \<in> set (db_notes st') \<and> note_updated_at r = db_now e" by simp
next
  assume h: "extractMergeInfo d = Some (b, en) \<and> local_existing e b (db_notes st) = Some x
      \<and> distinct (map note_id (db_notes st)) \<and> local_notes_create e d st = Inr (r, st')"
  then have h1: "extractMergeInfo d = Some (b, en)" and h2: "local_existing e b (db_notes st) = Some x"
    and h3: "distinct (map note_id (db_notes st))" and h4: "local_notes_create e d st = Inr (r, st')"
    by simp_all
  note lc = local_notes_create_append[OF h1 h2 h3 h4]
  have mem: "x \<in> set (db_notes st)" by (rule local_existing_mem[OF h2])
  have fr: "appendFrame x st st'"
    using map_update_frame[where x = x and st = st and t = "now e"
        and c = "Some (local_newContent (note_content x) (entryMarkup (escapeHtml en)))"]
      conjunct1[OF lc] by (simp only:)
  have oc: "onlyContentChanged x r" by (subst conjunct2[OF lc]) (simp add: onlyContentChanged_def)
  have up: "note_updated_at r = now e" by (subst conjunct2[OF lc]) simp
  have "db_notes st' = map (\<lambda>n. if note_id n = note_id x
              then n\<lparr>note_content := Some (local_newContent (note_content x) (entryMarkup (escapeHtml en))),
                     note_updated_at := now e\<rparr> else n) (db_notes st)"
    by (subst conjunct1[OF lc]) simp
  then have rm: "r \<in> set (db_notes st')"
    using mem conjunct2[OF lc] by (auto simp: image_iff intro!: bexI[of _ x])
  from fr oc mem rm up
  show "appendFrame x st st' \<and> onlyContentChanged x r \<and> x \<in> set (db_notes st)
        \<and> r \<in> set (db_notes st') \<and> note_updated_at r = now e" by simp
qed

text \<open>
  C9 for the grocery list, in both services.
\<close>

theorem C9_append_frame_witness:
  "appendFrame groceriesNote groceriesStore (store0\<lparr>db_notes := [groceriesAppended]\<rparr>)
   \<and> onlyContentChanged groceriesNote groceriesAppended
   \<and> appendFrame groceriesNote groceriesStore (store0\<lparr>db_notes := [groceriesAppendedLocal]\<rparr>)
   \<and> onlyContentChanged groceriesNote groceriesAppendedLocal"
proof -
  have s: "extractMergeInfo milkCapture = Some (js ''groceries'', js ''milk & <b>honey</b>'')
      \<and> auth_user env0 = Some (js ''u1'')
      \<and> existingNotes env0 (js ''u1'') (js ''groceries'') (db_notes groceriesStore) = Some (groceriesNote # [])
      \<and> notes_create env0 milkCapture groceriesStore
           = Inr (groceriesAppended, store0\<lparr>db_notes := [groceriesAppended]\<rparr>)"
    by code_simp
  have l: "extractMergeInfo milkCapture = Some (js ''groceries'', js ''milk & <b>honey</b>'')
      \<and> local_existing env0 (js ''groceries'') (db_notes groceriesStore) = Some groceriesNote
      \<and> distinct (map note_id (db_notes groceriesStore))
      \<and> local_notes_create env0 milkCapture groceriesStore
           = Inr (groceriesAppendedLocal, store0\<lparr>db_notes := [groceriesAppendedLocal]\<rparr>)"
    by code_simp
  from s C9_append_changes_only_the_content[of milkCapture "js ''groceries''" "js ''milk & <b>honey</b>''"
      env0 "js ''u1''" groceriesStore groceriesNote "[]" groceriesAppended
      "store0\<lparr>db_notes := [groceriesAppended]\<rparr>"]
  have 1: "appendFrame groceriesNote groceriesStore (store0\<lparr>db_notes := [groceriesAppended]\<rparr>)
   \<and> onlyContentChanged groceriesNote groceriesAppended" by blast
  from l C9_append_changes_only_the_content[of milkCapture "js ''groceries''" "js ''milk & <b>honey</b>''"
      env0 _ groceriesStore groceriesNote _ groceriesAppendedLocal
      "store0\<lparr>db_notes := [groceriesAppendedLocal]\<rparr>"]
  have 2: "appendFrame groceriesNote groceriesStore (store0\<lparr>db_notes := [groceriesAppendedLocal]\<rparr>)
   \<and> onlyContentChanged groceriesNote groceriesAppendedLocal" by blast
  from 1 2 show ?thesis by blast
qed

section \<open>C10: the date of a transaction\<close>

text \<open>
  C10 fails on the code, five hours west of UTC: for the date 1 March 2024 at midnight
  UTC, taken as a date without a time, \<open>transactions.create\<close> stores an instant of 29
  February, in UTC and in local time alike. The test for midnight reads the date in UTC,
  the calendar date is then read in local time.
\<close>

theorem C10_date_shifts_west_of_UTC:
  "(case transactions_create envNY
           (noData\<lparr>amount := Some 45, type := Some (js ''expense''),
                   category := Some (js ''Food & Dining''),
                   date := Some (DateObject (Some 1709251200000))\<rparr>) store0 of
      Inl err \<Rightarrow> False
    | Inr (r, st) \<Rightarrow> transaction_date r = 1709220600000)
   \<and> civil_from_days (Day 1709251200000) = (2024, 3, 1)
   \<and> civil_from_days (Day 1709220600000) = (2024, 2, 29)
   \<and> civil_from_days (Day (1709220600000 + tz_offset envNY 1709220600000)) = (2024, 2, 29)"
  by code_simp

end
